theory Spec2Isabelle
  imports Complex_Main "HOL-Library.Multiset"
begin

section \<open>Single-precision values\<close>

text \<open>
  The C++ type \<^verbatim>\<open>float\<close> is IEEE-754 binary32.  A value is a NaN, an infinity or
  a real number; the result of every arithmetic operation on finite values is
  rounded to the nearest binary32 value, ties to the even significand, with gradual
  underflow and overflow to infinity, one rounding for each operation of the source
  (no contraction to fused operations, no excess precision).  Arithmetic that
  involves a special value, division by zero and every comparison follow IEEE-754.
  The sign of zero is not modelled.
\<close>

datatype float = NaN | MInf | Finite real | PInf

text \<open>
  Rounding.  \<open>binade a\<close> is the exponent \<open>e\<close> with \<open>2^e \<le> a < 2^(e+1)\<close>, kept
  between \<open>-126\<close> (below that the values are subnormal) and \<open>127\<close>; the binary32
  values of that binade are the multiples of \<open>2^(e-23)\<close>.
\<close>

definition pow2 :: "int \<Rightarrow> real" where
  "pow2 k = (if 0 \<le> k then 2 ^ nat k else 1 / 2 ^ nat (- k))"

function binade_up :: "real \<Rightarrow> int \<Rightarrow> int" where
  "binade_up a e = (if 2 \<le> a \<and> e < 127 then binade_up (a / 2) (e + 1) else e)"
  by auto
termination by (relation "measure (\<lambda>(a, e). nat (127 - e))") auto

function binade_down :: "real \<Rightarrow> int \<Rightarrow> int" where
  "binade_down a e = (if a < 1 \<and> - 126 < e then binade_down (a * 2) (e - 1) else e)"
  by auto
termination by (relation "measure (\<lambda>(a, e). nat (e + 126))") auto

definition binade :: "real \<Rightarrow> int" where
  "binade a = (if 1 \<le> a then binade_up a 0 else binade_down a 0)"

text \<open>
  The integer nearest to \<open>x\<close>, the even one of two at the same distance: \<open>f\<close> is
  the integer part and \<open>d\<close> the fraction.
\<close>

definition nearest_even :: "int \<Rightarrow> real \<Rightarrow> int" where
  "nearest_even f d =
     (if d < 1/2 then f else if 1/2 < d then f + 1 else if even f then f else f + 1)"

definition round_even :: "real \<Rightarrow> int" where
  "round_even x = nearest_even \<lfloor>x\<rfloor> (x - of_int \<lfloor>x\<rfloor>)"

text \<open>
  The multiple of the quantum \<open>q\<close> nearest to \<open>a\<close>, and the value for a magnitude
  \<open>r\<close> with a sign: magnitudes from \<open>2^128\<close> on are infinite.
\<close>

definition nearest_multiple :: "real \<Rightarrow> real \<Rightarrow> real" where
  "nearest_multiple a q = of_int (round_even (a / q)) * q"

definition signed_value :: "bool \<Rightarrow> real \<Rightarrow> float" where
  "signed_value positive r =
     (if pow2 128 \<le> r then (if positive then PInf else MInf)
      else Finite (if positive then r else - r))"

definition round32 :: "real \<Rightarrow> float" where
  "round32 x =
     (if x = 0 then Finite 0
      else signed_value (0 < x) (nearest_multiple \<bar>x\<bar> (pow2 (binade \<bar>x\<bar> - 23))))"

fun fneg :: "float \<Rightarrow> float" where
  "fneg NaN = NaN"
| "fneg MInf = PInf"
| "fneg PInf = MInf"
| "fneg (Finite a) = Finite (- a)"

fun fadd :: "float \<Rightarrow> float \<Rightarrow> float" where
  "fadd (Finite a) (Finite b) = round32 (a + b)"
| "fadd NaN _ = NaN"
| "fadd _ NaN = NaN"
| "fadd PInf MInf = NaN"
| "fadd MInf PInf = NaN"
| "fadd PInf _ = PInf"
| "fadd _ PInf = PInf"
| "fadd MInf _ = MInf"
| "fadd _ MInf = MInf"

definition fsub :: "float \<Rightarrow> float \<Rightarrow> float" where
  "fsub a b = fadd a (fneg b)"

text \<open>The sign of a value that is not NaN: \<open>-1\<close>, \<open>0\<close> or \<open>1\<close>.\<close>

fun fsign :: "float \<Rightarrow> int" where
  "fsign NaN = 0"
| "fsign MInf = - 1"
| "fsign PInf = 1"
| "fsign (Finite a) = (if a < 0 then - 1 else if a = 0 then 0 else 1)"

definition inf_of_sign :: "int \<Rightarrow> float" where
  "inf_of_sign s = (if s = 0 then NaN else if 0 < s then PInf else MInf)"

definition fmul :: "float \<Rightarrow> float \<Rightarrow> float" where
  "fmul a b =
     (case (a, b) of
        (Finite x, Finite y) \<Rightarrow> round32 (x * y)
      | _ \<Rightarrow> if a = NaN \<or> b = NaN then NaN else inf_of_sign (fsign a * fsign b))"

text \<open>
  Division: a finite non-zero value over zero is an infinity, zero over zero and
  infinity over infinity are NaN, a finite value over an infinity is zero.
\<close>

definition fdiv :: "float \<Rightarrow> float \<Rightarrow> float" where
  "fdiv a b =
     (if a = NaN \<or> b = NaN then NaN
      else case b of
        Finite y \<Rightarrow>
          (case a of
             Finite x \<Rightarrow> if y \<noteq> 0 then round32 (x / y) else inf_of_sign (fsign a)
           | _ \<Rightarrow> inf_of_sign (fsign a * (if y < 0 then - 1 else 1)))
      | _ \<Rightarrow> (case a of Finite x \<Rightarrow> Finite 0 | _ \<Rightarrow> NaN))"

fun fless :: "float \<Rightarrow> float \<Rightarrow> bool" where
  "fless (Finite a) (Finite b) = (a < b)"
| "fless NaN _ = False"
| "fless _ NaN = False"
| "fless MInf MInf = False"
| "fless MInf _ = True"
| "fless _ MInf = False"
| "fless PInf _ = False"
| "fless _ PInf = True"

text \<open>The operator \<^verbatim>\<open>==\<close>: NaN is equal to nothing, not even to itself.\<close>

definition feq :: "float \<Rightarrow> float \<Rightarrow> bool" where
  "feq a b = (a \<noteq> NaN \<and> a = b)"

definition fle :: "float \<Rightarrow> float \<Rightarrow> bool" where
  "fle a b = (fless a b \<or> feq a b)"

text \<open>\<^verbatim>\<open>glm::min\<close> and \<^verbatim>\<open>glm::max\<close>: \<^verbatim>\<open>(y < x) ? y : x\<close> and \<^verbatim>\<open>(x < y) ? y : x\<close>.\<close>

definition fmin :: "float \<Rightarrow> float \<Rightarrow> float" where
  "fmin a b = (if fless b a then b else a)"

definition fmax :: "float \<Rightarrow> float \<Rightarrow> float" where
  "fmax a b = (if fless a b then b else a)"

text \<open>Conversion of an \<^verbatim>\<open>int\<close> to \<^verbatim>\<open>float\<close> rounds as well.\<close>

definition float_of_int :: "int \<Rightarrow> float" where
  "float_of_int i = round32 (of_int i)"

text \<open>
  Conversion of a \<^verbatim>\<open>float\<close> to \<^verbatim>\<open>int\<close> truncates towards zero; it is undefined
  behaviour for NaN, for the infinities and outside the range of a 32-bit \<^verbatim>\<open>int\<close>.
\<close>

definition int_of_float :: "float \<Rightarrow> int option" where
  "int_of_float a =
     (case a of
        Finite r \<Rightarrow>
          (let i = (if 0 \<le> r then \<lfloor>r\<rfloor> else \<lceil>r\<rceil>)
           in if - (2 ^ 31) \<le> i \<and> i < 2 ^ 31 then Some i else None)
      | _ \<Rightarrow> None)"

section \<open>Vectors and axes\<close>

datatype EAxis = X | Y | Z

datatype vec3 = Vec3 float float float

fun vidx :: "vec3 \<Rightarrow> EAxis \<Rightarrow> float" where
  "vidx (Vec3 a b c) X = a"
| "vidx (Vec3 a b c) Y = b"
| "vidx (Vec3 a b c) Z = c"

fun vset :: "vec3 \<Rightarrow> EAxis \<Rightarrow> float \<Rightarrow> vec3" where
  "vset (Vec3 a b c) X v = Vec3 v b c"
| "vset (Vec3 a b c) Y v = Vec3 a v c"
| "vset (Vec3 a b c) Z v = Vec3 a b v"

fun vzip :: "(float \<Rightarrow> float \<Rightarrow> float) \<Rightarrow> vec3 \<Rightarrow> vec3 \<Rightarrow> vec3" where
  "vzip f (Vec3 a b c) (Vec3 a' b' c') = Vec3 (f a a') (f b b') (f c c')"

definition vsub :: "vec3 \<Rightarrow> vec3 \<Rightarrow> vec3" where
  "vsub = vzip fsub"

fun dot :: "vec3 \<Rightarrow> vec3 \<Rightarrow> float" where
  "dot (Vec3 a b c) (Vec3 a' b' c') = fadd (fadd (fmul a a') (fmul b b')) (fmul c c')"

section \<open>Bounding boxes\<close>

text \<open>
  Modelled from the spec: the class \<^verbatim>\<open>BBox\<close> (its header is not part of the sources at
  hand).  The spec describes an axis-aligned box with min/max corners and a centroid
  that supports union, overlap, surface area, the axis of maximum extent and the
  normalised offset of a point, and requires that the empty box is neutral for union.
  With corners combined by componentwise minimum and maximum, the neutral box has
  its minimum corner at plus infinity and its maximum corner at minus infinity.
\<close>

record BBox =
  m_min :: vec3
  m_max :: vec3
  m_centroid :: vec3

definition Centroid :: "vec3 \<Rightarrow> vec3 \<Rightarrow> vec3" where
  "Centroid a b = vzip (\<lambda>u v. fmul (Finite (1/2)) (fadd u v)) a b"

definition BBox_empty :: BBox where
  "BBox_empty =
     \<lparr>m_min = Vec3 PInf PInf PInf, m_max = Vec3 MInf MInf MInf,
      m_centroid = Vec3 (Finite 0) (Finite 0) (Finite 0)\<rparr>"

definition BBox_of_corners :: "vec3 \<Rightarrow> vec3 \<Rightarrow> BBox" where
  "BBox_of_corners lo hi = \<lparr>m_min = lo, m_max = hi, m_centroid = Centroid lo hi\<rparr>"

definition BBoxUnion :: "BBox \<Rightarrow> BBox \<Rightarrow> BBox" where
  "BBoxUnion a b =
     BBox_of_corners (vzip fmin (m_min a) (m_min b)) (vzip fmax (m_max a) (m_max b))"

definition BBoxUnionPoint :: "BBox \<Rightarrow> vec3 \<Rightarrow> BBox" where
  "BBoxUnionPoint a p =
     BBox_of_corners (vzip fmin (m_min a) p) (vzip fmax (m_max a) p)"

definition BBoxOverlap :: "BBox \<Rightarrow> BBox \<Rightarrow> BBox" where
  "BBoxOverlap a b =
     BBox_of_corners (vzip fmax (m_min a) (m_min b)) (vzip fmin (m_max a) (m_max b))"

definition BBoxFromPoints :: "vec3 list \<Rightarrow> BBox" where
  "BBoxFromPoints ps = foldl BBoxUnionPoint BBox_empty ps"

definition extent :: "BBox \<Rightarrow> EAxis \<Rightarrow> float" where
  "extent b ax = fsub (vidx (m_max b) ax) (vidx (m_min b) ax)"

definition GetSurfaceArea :: "BBox \<Rightarrow> float" where
  "GetSurfaceArea b =
     fmul (Finite 2)
       (fadd (fadd (fmul (extent b X) (extent b Y)) (fmul (extent b X) (extent b Z)))
             (fmul (extent b Y) (extent b Z)))"

definition BBoxMaximumExtent :: "BBox \<Rightarrow> EAxis" where
  "BBoxMaximumExtent b =
     (if fless (extent b Y) (extent b X) \<and> fless (extent b Z) (extent b X) then X
      else if fless (extent b Z) (extent b Y) then Y else Z)"

definition Offset :: "BBox \<Rightarrow> vec3 \<Rightarrow> vec3" where
  "Offset b p =
     vzip fdiv (vsub p (m_min b)) (vsub (m_max b) (m_min b))"

section \<open>Outcomes of a call\<close>

text \<open>
  A call either returns a value, stops in a fault (a failed \<^verbatim>\<open>assert\<close> or undefined
  behaviour of the C++ program, which the model makes explicit), or does not return
  at all.  Recursive functions take a bound on the recursion depth; \<open>Diverges\<close> is
  the answer when the bound is exhausted.  Assertions are modelled as enabled.
\<close>

datatype fault =
  AssertionFailed | OutOfRange | NullDereference | UndefinedConversion | UninitialisedRead

datatype 'a outcome = Diverges | Fault fault | Returns 'a

fun obind :: "'a outcome \<Rightarrow> ('a \<Rightarrow> 'b outcome) \<Rightarrow> 'b outcome" where
  "obind Diverges f = Diverges"
| "obind (Fault e) f = Fault e"
| "obind (Returns a) f = f a"

section \<open>Geometry, geometry infos and nodes\<close>

text \<open>
  Modelled from the spec: the classes \<^verbatim>\<open>Intersection\<close>, \<^verbatim>\<open>Geometry\<close> and
  \<^verbatim>\<open>Triangle\<close> and the struct \<^verbatim>\<open>SBVHGeometryInfo\<close> are declared in headers that are
  not part of the sources at hand.  An intersection carries the distance \<open>t\<close> along
  the ray and further data \<open>'h\<close> for shading.  A geometry is an object with two
  virtual methods, its bounding box and its ray intersection test; \<open>geom_triangle\<close>
  is the result of the \<^verbatim>\<open>dynamic_cast\<close> to \<^verbatim>\<open>Triangle\<close>: the three vertices, or
  \<open>None\<close> for any other shape.  The type \<open>'r\<close> is the type of rays.
\<close>

record 'h Intersection =
  isx_t :: float
  isx_data :: 'h

record ('r, 'h) Geometry =
  geom_GetBBox :: BBox
  geom_GetIntersection :: "'r \<Rightarrow> 'h Intersection"
  geom_triangle :: "(vec3 \<times> vec3 \<times> vec3) option"

record SBVHGeometryInfo =
  geometryId :: nat
  bbox :: BBox
  straddling :: bool

datatype SplitMethod = EqualCounts | SAH | SpatialSplit_SAH

text \<open>
  A pointer to a node is null, or points to a leaf (\<^verbatim>\<open>SBVHLeaf\<close>) or to an interior
  node (\<^verbatim>\<open>SBVHNode\<close>).  The tree owns its nodes and shares none, so a pointer is
  modelled by the node it points to.
\<close>

datatype SBVHNode =
    Nullptr
  | SBVHLeaf (m_nodeIdx: nat) (m_firstGeomOffset: nat) (m_numGeoms: nat) (m_bbox: BBox)
  | SBVHInterior (m_nearChild: SBVHNode) (m_farChild: SBVHNode) (m_nodeIdx: nat)
      (m_splitAxis: EAxis) (m_bbox: BBox)

text \<open>
  Modelled from the spec: the constructor of an interior node (declared in the missing
  header \<^verbatim>\<open>SBVH.h\<close>).  The spec states that the bounding box of an interior node is
  the union of the boxes of its two children.
\<close>

fun node_bbox :: "SBVHNode \<Rightarrow> BBox" where
  "node_bbox Nullptr = BBox_empty"
| "node_bbox (SBVHLeaf i off n b) = b"
| "node_bbox (SBVHInterior l r i ax b) = b"

definition new_SBVHNode :: "SBVHNode \<Rightarrow> SBVHNode \<Rightarrow> nat \<Rightarrow> EAxis \<Rightarrow> SBVHNode" where
  "new_SBVHNode nearChild farChild nodeIdx splitAxis =
     SBVHInterior nearChild farChild nodeIdx splitAxis
       (BBoxUnion (node_bbox nearChild) (node_bbox farChild))"

record ('r, 'h) SBVH =
  m_geoms :: "('r, 'h) Geometry list"
  m_root :: SBVHNode
  m_nodes :: "SBVHNode list"
  m_splitMethod :: SplitMethod
  m_maxGeomsInNode :: int

section \<open>Traversal\<close>

text \<open>
  The test of one primitive in a leaf, the body of the loops in
  \<^verbatim>\<open>GetIntersection\<close> and \<^verbatim>\<open>GetIntersectionRecursive\<close>: the pair is
  \<^verbatim>\<open>nearestT\<close> and \<^verbatim>\<open>nearestIsx\<close>.
\<close>

definition test_geom ::
  "'r \<Rightarrow> float \<times> 'h Intersection \<Rightarrow> ('r, 'h) Geometry \<Rightarrow> float \<times> 'h Intersection" where
  "test_geom r acc geom =
     (let isx = geom_GetIntersection geom r
      in if fless (Finite 0) (isx_t isx) \<and> fless (isx_t isx) (fst acc)
         then (isx_t isx, isx) else acc)"

text \<open>The primitives of a leaf: \<^verbatim>\<open>m_geoms[m_firstGeomOffset + i]\<close> for \<open>i < m_numGeoms\<close>.\<close>

definition leaf_geoms :: "'g list \<Rightarrow> nat \<Rightarrow> nat \<Rightarrow> 'g list outcome" where
  "leaf_geoms geoms off n =
     (if off + n \<le> length geoms then Returns (take n (drop off geoms))
      else Fault OutOfRange)"

definition leaf_nearest ::
  "('r, 'h) Geometry list \<Rightarrow> 'r \<Rightarrow> nat \<Rightarrow> nat \<Rightarrow> float \<times> 'h Intersection
     \<Rightarrow> (float \<times> 'h Intersection) outcome" where
  "leaf_nearest geoms r off n acc =
     obind (leaf_geoms geoms off n) (\<lambda>gs. Returns (foldl (test_geom r) acc gs))"

text \<open>
  \<^verbatim>\<open>BBox::DoesIntersect\<close> is not part of the sources at hand; the ray-box test is the
  parameter \<open>hitsBox\<close>.
\<close>

fun GetIntersectionRecursive ::
  "(BBox \<Rightarrow> 'r \<Rightarrow> bool) \<Rightarrow> ('r, 'h) Geometry list \<Rightarrow> 'r \<Rightarrow> SBVHNode
     \<Rightarrow> float \<times> 'h Intersection \<Rightarrow> (float \<times> 'h Intersection) outcome" where
  "GetIntersectionRecursive hitsBox geoms r Nullptr acc = Returns acc"
| "GetIntersectionRecursive hitsBox geoms r (SBVHLeaf i off n b) acc =
     leaf_nearest geoms r off n acc"
| "GetIntersectionRecursive hitsBox geoms r (SBVHInterior l rt i ax b) acc =
     (if hitsBox b r
      then obind (GetIntersectionRecursive hitsBox geoms r l acc)
             (\<lambda>acc'. GetIntersectionRecursive hitsBox geoms r rt acc')
      else Returns acc)"

text \<open>
  \<^verbatim>\<open>SBVH::GetIntersection\<close>.  \<open>noIsx\<close> is the default-constructed \<^verbatim>\<open>Intersection\<close>,
  the value returned when nothing is hit.  The root is dereferenced without a null
  test, and its own box is not tested.
\<close>

definition GetIntersection ::
  "(BBox \<Rightarrow> 'r \<Rightarrow> bool) \<Rightarrow> 'h Intersection \<Rightarrow> ('r, 'h) SBVH \<Rightarrow> 'r
     \<Rightarrow> 'h Intersection outcome" where
  "GetIntersection hitsBox noIsx sbvh r =
     (case m_root sbvh of
        Nullptr \<Rightarrow> Fault NullDereference
      | SBVHLeaf i off n b \<Rightarrow>
          obind (leaf_nearest (m_geoms sbvh) r off n (PInf, noIsx)) (\<lambda>acc. Returns (snd acc))
      | SBVHInterior l rt i ax b \<Rightarrow>
          obind (GetIntersectionRecursive hitsBox (m_geoms sbvh) r l (PInf, noIsx))
            (\<lambda>acc. obind (GetIntersectionRecursive hitsBox (m_geoms sbvh) r rt acc)
               (\<lambda>acc'. Returns (snd acc'))))"

text \<open>The loop of the occlusion query: is some primitive of the leaf hit at \<open>t > 0\<close>?\<close>

fun any_hit :: "('r, 'h) Geometry list \<Rightarrow> 'r \<Rightarrow> nat list \<Rightarrow> bool outcome" where
  "any_hit geoms r [] = Returns False"
| "any_hit geoms r (i # is) =
     (if length geoms \<le> i then Fault OutOfRange
      else if fless (Finite 0) (isx_t (geom_GetIntersection (geoms ! i) r)) then Returns True
      else any_hit geoms r is)"

definition leaf_any :: "('r, 'h) Geometry list \<Rightarrow> 'r \<Rightarrow> nat \<Rightarrow> nat \<Rightarrow> bool outcome" where
  "leaf_any geoms r off n = any_hit geoms r (map (\<lambda>i. off + i) [0..<n])"

fun DoesIntersectRecursive ::
  "(BBox \<Rightarrow> 'r \<Rightarrow> bool) \<Rightarrow> ('r, 'h) Geometry list \<Rightarrow> 'r \<Rightarrow> SBVHNode \<Rightarrow> bool outcome" where
  "DoesIntersectRecursive hitsBox geoms r Nullptr = Returns False"
| "DoesIntersectRecursive hitsBox geoms r (SBVHLeaf i off n b) = leaf_any geoms r off n"
| "DoesIntersectRecursive hitsBox geoms r (SBVHInterior l rt i ax b) =
     (if hitsBox b r
      then obind (DoesIntersectRecursive hitsBox geoms r l)
             (\<lambda>hit. if hit then Returns True else DoesIntersectRecursive hitsBox geoms r rt)
      else Returns False)"

definition DoesIntersect ::
  "(BBox \<Rightarrow> 'r \<Rightarrow> bool) \<Rightarrow> ('r, 'h) SBVH \<Rightarrow> 'r \<Rightarrow> bool outcome" where
  "DoesIntersect hitsBox sbvh r =
     (case m_root sbvh of
        Nullptr \<Rightarrow> Fault NullDereference
      | SBVHLeaf i off n b \<Rightarrow> leaf_any (m_geoms sbvh) r off n
      | SBVHInterior l rt i ax b \<Rightarrow>
          obind (DoesIntersectRecursive hitsBox (m_geoms sbvh) r l)
            (\<lambda>hit. if hit then Returns True
                    else DoesIntersectRecursive hitsBox (m_geoms sbvh) r rt))"

section \<open>Construction: the working array and the library algorithms\<close>

text \<open>
  The state that \<^verbatim>\<open>BuildRecursive\<close> updates through its reference parameters: the
  working array of geometry infos, the node counter and the reordered primitives.
\<close>

record ('r, 'h) build_state =
  geomInfos :: "SBVHGeometryInfo list"
  nodeCount :: nat
  orderedGeoms :: "('r, 'h) Geometry list"

text \<open>The range \<open>[first, last)\<close> of an array, and the array with that range overwritten.\<close>

definition range_of :: "'a list \<Rightarrow> int \<Rightarrow> int \<Rightarrow> 'a list" where
  "range_of xs first last' = take (nat (last' - first)) (drop (nat first) xs)"

definition set_range :: "'a list \<Rightarrow> int \<Rightarrow> 'a list \<Rightarrow> 'a list" where
  "set_range xs first ys = take (nat first) xs @ ys @ drop (nat first + length ys) xs"

text \<open>
  The C++ standard fixes what \<^verbatim>\<open>std::nth_element\<close>, \<^verbatim>\<open>std::partition\<close> and
  \<^verbatim>\<open>std::remove_if\<close> guarantee, not the order they produce, so the construction is
  parameterised by an implementation of the three.  Each takes the range as a list;
  \<open>std_partition\<close> also returns the position of the partition point in the range.
  \<open>std_remove_if\<close> returns the whole range: the call in the source discards the
  iterator that \<^verbatim>\<open>std::remove_if\<close> returns.
\<close>

record stl =
  std_nth_element ::
    "(SBVHGeometryInfo \<Rightarrow> SBVHGeometryInfo \<Rightarrow> bool) \<Rightarrow> nat \<Rightarrow> SBVHGeometryInfo list
       \<Rightarrow> SBVHGeometryInfo list"
  std_partition ::
    "(SBVHGeometryInfo \<Rightarrow> bool) \<Rightarrow> SBVHGeometryInfo list \<Rightarrow> SBVHGeometryInfo list \<times> nat"
  std_remove_if ::
    "(SBVHGeometryInfo \<Rightarrow> bool) \<Rightarrow> SBVHGeometryInfo list \<Rightarrow> SBVHGeometryInfo list"

text \<open>What the standard guarantees of the three algorithms.\<close>

definition nth_element_ok ::
  "(('a \<Rightarrow> 'a \<Rightarrow> bool) \<Rightarrow> nat \<Rightarrow> 'a list \<Rightarrow> 'a list) \<Rightarrow> bool" where
  "nth_element_ok f = (\<forall>cmp n xs. mset (f cmp n xs) = mset xs)"

definition partition_ok :: "(('a \<Rightarrow> bool) \<Rightarrow> 'a list \<Rightarrow> 'a list \<times> nat) \<Rightarrow> bool" where
  "partition_ok f =
     (\<forall>P xs. mset (fst (f P xs)) = mset xs
        \<and> snd (f P xs) = length (filter P xs)
        \<and> list_all P (take (snd (f P xs)) (fst (f P xs)))
        \<and> list_all (\<lambda>x. \<not> P x) (drop (snd (f P xs)) (fst (f P xs))))"

definition remove_if_ok :: "(('a \<Rightarrow> bool) \<Rightarrow> 'a list \<Rightarrow> 'a list) \<Rightarrow> bool" where
  "remove_if_ok f =
     (\<forall>P xs. length (f P xs) = length xs
        \<and> take (length (filter (\<lambda>x. \<not> P x) xs)) (f P xs) = filter (\<lambda>x. \<not> P x) xs)"

definition stl_ok :: "stl \<Rightarrow> bool" where
  "stl_ok L =
     (nth_element_ok (std_nth_element L) \<and> partition_ok (std_partition L)
      \<and> remove_if_ok (std_remove_if L))"

text \<open>
  Reference implementations, used to run the construction on concrete scenes.
  A full insertion sort is a conforming \<^verbatim>\<open>nth_element\<close>; the partition keeps the
  relative order on both sides; \<open>ref_remove_if\<close> is the usual forward loop
  \<^verbatim>\<open>for (; i != last; ++i) if (!p(*i)) *result++ = std::move(*i);\<close>, which moves
  the kept elements to the front and does not write behind them (moving a geometry
  info copies it).
\<close>

fun insert_by :: "('a \<Rightarrow> 'a \<Rightarrow> bool) \<Rightarrow> 'a \<Rightarrow> 'a list \<Rightarrow> 'a list" where
  "insert_by cmp x [] = [x]"
| "insert_by cmp x (y # ys) = (if cmp y x then y # insert_by cmp x ys else x # y # ys)"

definition ref_nth_element :: "('a \<Rightarrow> 'a \<Rightarrow> bool) \<Rightarrow> nat \<Rightarrow> 'a list \<Rightarrow> 'a list" where
  "ref_nth_element cmp n xs = foldr (insert_by cmp) xs []"

definition ref_partition :: "('a \<Rightarrow> bool) \<Rightarrow> 'a list \<Rightarrow> 'a list \<times> nat" where
  "ref_partition P xs = (filter P xs @ filter (\<lambda>x. \<not> P x) xs, length (filter P xs))"

definition ref_remove_if :: "('a \<Rightarrow> bool) \<Rightarrow> 'a list \<Rightarrow> 'a list" where
  "ref_remove_if P xs =
     filter (\<lambda>x. \<not> P x) xs @ drop (length (filter (\<lambda>x. \<not> P x) xs)) xs"

definition ref_stl :: stl where
  "ref_stl =
     \<lparr>std_nth_element = ref_nth_element, std_partition = ref_partition,
      std_remove_if = ref_remove_if\<rparr>"

section \<open>Construction: equal counts\<close>

definition CompareCentroid :: "EAxis \<Rightarrow> SBVHGeometryInfo \<Rightarrow> SBVHGeometryInfo \<Rightarrow> bool" where
  "CompareCentroid dim' node1 node2 =
     fless (vidx (m_centroid (bbox node1)) dim') (vidx (m_centroid (bbox node2)) dim')"

text \<open>
  \<^verbatim>\<open>PartitionEqualCounts\<close> returns \<open>mid\<close> and the updated array.  The indices are
  C++ \<^verbatim>\<open>int\<close>s, modelled by unbounded integers: they stay below the number of
  primitives, and \<open>first + last\<close> does not overflow for fewer than \<open>2^30\<close> of them.
\<close>

definition PartitionEqualCounts ::
  "stl \<Rightarrow> EAxis \<Rightarrow> int \<Rightarrow> int \<Rightarrow> SBVHGeometryInfo list \<Rightarrow> int \<times> SBVHGeometryInfo list" where
  "PartitionEqualCounts L dim' first last' infos =
     (let mid = (first + last') div 2
      in (mid,
          set_range infos first
            (std_nth_element L (CompareCentroid dim') (nat (mid - first))
               (range_of infos first last'))))"

section \<open>Construction: buckets and the surface area heuristic\<close>

definition COST_TRAVERSAL :: float where "COST_TRAVERSAL = Finite (1/8)"
definition COST_INTERSECTION :: float where "COST_INTERSECTION = Finite 1"
definition NUM_BUCKET :: int where "NUM_BUCKET = 12"
definition RESTRICT_ALPHA :: float where "RESTRICT_ALPHA = round32 (2/10)"

record BucketInfo =
  b_count :: int
  b_bbox :: BBox
  b_enter :: int
  b_exit :: int

text \<open>A default-initialised \<^verbatim>\<open>BucketInfo\<close>, and an array of twelve of them.\<close>

definition empty_bucket :: BucketInfo where
  "empty_bucket = \<lparr>b_count = 0, b_bbox = BBox_empty, b_enter = 0, b_exit = 0\<rparr>"

definition new_buckets :: "BucketInfo list" where
  "new_buckets = replicate (nat NUM_BUCKET) empty_bucket"

text \<open>
  \<^verbatim>\<open>int whichBucket = NUM_BUCKET * box.Offset(p)[dim]\<close> with the assertion and the
  clamp that follow it.
\<close>

definition whichBucket_of :: "BBox \<Rightarrow> EAxis \<Rightarrow> vec3 \<Rightarrow> int outcome" where
  "whichBucket_of box dim' p =
     (case int_of_float (fmul (float_of_int NUM_BUCKET) (vidx (Offset box p) dim')) of
        None \<Rightarrow> Fault UndefinedConversion
      | Some w \<Rightarrow>
          if \<not> w \<le> NUM_BUCKET then Fault AssertionFailed
          else Returns (if w = NUM_BUCKET then NUM_BUCKET - 1 else w))"

text \<open>Indexing one of the bucket arrays; the index is at most 11 after the clamp.\<close>

definition bucket_slot :: "int \<Rightarrow> nat outcome" where
  "bucket_slot w = (if w < 0 then Fault OutOfRange else Returns (nat w))"

definition centroid_slot :: "BBox \<Rightarrow> EAxis \<Rightarrow> SBVHGeometryInfo \<Rightarrow> nat outcome" where
  "centroid_slot bboxCentroids dim' gi =
     obind (whichBucket_of bboxCentroids dim' (m_centroid (bbox gi))) bucket_slot"

fun ofoldl :: "('s \<Rightarrow> 'a \<Rightarrow> 's outcome) \<Rightarrow> 's \<Rightarrow> 'a list \<Rightarrow> 's outcome" where
  "ofoldl f s [] = Returns s"
| "ofoldl f s (x # xs) = obind (f s x) (\<lambda>s'. ofoldl f s' xs)"

text \<open>The first loop of the SAH branches: count every primitive of the range into its bucket.\<close>

definition add_to_bucket ::
  "BBox \<Rightarrow> EAxis \<Rightarrow> BucketInfo list \<Rightarrow> SBVHGeometryInfo \<Rightarrow> BucketInfo list outcome" where
  "add_to_bucket bboxCentroids dim' buckets gi =
     obind (centroid_slot bboxCentroids dim' gi)
       (\<lambda>k. Returns (buckets[k := (buckets ! k)
                \<lparr>b_count := b_count (buckets ! k) + 1,
                 b_bbox := BBoxUnion (b_bbox (buckets ! k)) (bbox gi)\<rparr>]))"

definition fill_buckets ::
  "BBox \<Rightarrow> EAxis \<Rightarrow> SBVHGeometryInfo list \<Rightarrow> BucketInfo list outcome" where
  "fill_buckets bboxCentroids dim' rng = ofoldl (add_to_bucket bboxCentroids dim') new_buckets rng"

definition boxes_union :: "BBox list \<Rightarrow> BBox" where
  "boxes_union bs = foldl BBoxUnion BBox_empty bs"

text \<open>
  \<^verbatim>\<open>COST_TRAVERSAL + COST_INTERSECTION * (count0 * SA(bbox0) + count1 * SA(bbox1)) * invAllGeometriesSA\<close>
\<close>

definition split_cost :: "float \<Rightarrow> int \<Rightarrow> BBox \<Rightarrow> int \<Rightarrow> BBox \<Rightarrow> float" where
  "split_cost invAllGeometriesSA count0 bbox0 count1 bbox1 =
     fadd COST_TRAVERSAL
       (fmul (fmul COST_INTERSECTION
                (fadd (fmul (float_of_int count0) (GetSurfaceArea bbox0))
                      (fmul (float_of_int count1) (GetSurfaceArea bbox1))))
             invAllGeometriesSA)"

text \<open>The two sides of the split after bucket \<open>i\<close>: buckets \<open>0..i\<close> and \<open>i+1..11\<close>.\<close>

definition bbox0_of :: "BucketInfo list \<Rightarrow> nat \<Rightarrow> BBox" where
  "bbox0_of buckets i = boxes_union (map b_bbox (take (Suc i) buckets))"

definition bbox1_of :: "BucketInfo list \<Rightarrow> nat \<Rightarrow> BBox" where
  "bbox1_of buckets i = boxes_union (map b_bbox (drop (Suc i) buckets))"

definition count0_of :: "BucketInfo list \<Rightarrow> nat \<Rightarrow> int" where
  "count0_of buckets i = sum_list (map b_count (take (Suc i) buckets))"

definition count1_of :: "BucketInfo list \<Rightarrow> nat \<Rightarrow> int" where
  "count1_of buckets i = sum_list (map b_count (drop (Suc i) buckets))"

definition object_cost :: "float \<Rightarrow> BucketInfo list \<Rightarrow> nat \<Rightarrow> float" where
  "object_cost invAllGeometriesSA buckets i =
     split_cost invAllGeometriesSA (count0_of buckets i) (bbox0_of buckets i)
       (count1_of buckets i) (bbox1_of buckets i)"

definition sah_costs :: "float \<Rightarrow> BucketInfo list \<Rightarrow> float list" where
  "sah_costs invAllGeometriesSA buckets =
     map (object_cost invAllGeometriesSA buckets) [0..<nat (NUM_BUCKET - 1)]"

text \<open>The loop that finds \<^verbatim>\<open>minCost\<close> and \<^verbatim>\<open>minCostBucket\<close>, starting from \<^verbatim>\<open>costs[0]\<close>.\<close>

definition min_cost_step :: "float list \<Rightarrow> float \<times> int \<Rightarrow> nat \<Rightarrow> float \<times> int" where
  "min_cost_step costs m i = (if fless (costs ! i) (fst m) then (costs ! i, int i) else m)"

definition min_cost :: "float list \<Rightarrow> float \<times> int" where
  "min_cost costs = foldl (min_cost_step costs) (costs ! 0, 0) [1..<nat (NUM_BUCKET - 1)]"

text \<open>
  The call of \<^verbatim>\<open>std::partition\<close> with the lambda that recomputes the bucket of a
  geometry info; \<open>low\<close> is the comparison with the winning bucket.  The lambda is
  applied exactly once to every element of the range, so an assertion that fails in
  it is found by evaluating it on the range beforehand.
\<close>

definition in_low_side :: "BBox \<Rightarrow> EAxis \<Rightarrow> (int \<Rightarrow> bool) \<Rightarrow> SBVHGeometryInfo \<Rightarrow> bool" where
  "in_low_side bboxCentroids dim' low gi =
     (case whichBucket_of bboxCentroids dim' (m_centroid (bbox gi)) of
        Returns w \<Rightarrow> low w | _ \<Rightarrow> False)"

definition lambda_check :: "BBox \<Rightarrow> EAxis \<Rightarrow> SBVHGeometryInfo list \<Rightarrow> unit outcome" where
  "lambda_check bboxCentroids dim' rng =
     ofoldl (\<lambda>u gi. obind (whichBucket_of bboxCentroids dim' (m_centroid (bbox gi)))
                      (\<lambda>w. Returns ())) () rng"

definition partition_by_bucket ::
  "stl \<Rightarrow> BBox \<Rightarrow> EAxis \<Rightarrow> (int \<Rightarrow> bool) \<Rightarrow> int \<Rightarrow> int \<Rightarrow> SBVHGeometryInfo list
     \<Rightarrow> (int \<times> SBVHGeometryInfo list) outcome" where
  "partition_by_bucket L bboxCentroids dim' low first last' infos =
     obind (lambda_check bboxCentroids dim' (range_of infos first last'))
       (\<lambda>u. let res = std_partition L (in_low_side bboxCentroids dim' low)
                         (range_of infos first last')
             in Returns (first + int (snd res), set_range infos first (fst res)))"

text \<open>What the \<^verbatim>\<open>switch\<close> on the split method decides for a range.\<close>

datatype split_decision = MakeLeaf | SplitAt int

text \<open>The branch \<^verbatim>\<open>case SAH\<close> for more than four primitives.\<close>

definition SAH_split ::
  "stl \<Rightarrow> int \<Rightarrow> BBox \<Rightarrow> EAxis \<Rightarrow> float \<Rightarrow> int \<Rightarrow> int \<Rightarrow> SBVHGeometryInfo list
     \<Rightarrow> (split_decision \<times> SBVHGeometryInfo list) outcome" where
  "SAH_split L maxGeomsInNode bboxCentroids dim' invAllGeometriesSA first last' infos =
     obind (fill_buckets bboxCentroids dim' (range_of infos first last'))
       (\<lambda>buckets.
          let m = min_cost (sah_costs invAllGeometriesSA buckets);
              numPrimitives = last' - first;
              leafCost = float_of_int numPrimitives
          in if maxGeomsInNode < numPrimitives \<or> fless (fst m) leafCost
             then obind (partition_by_bucket L bboxCentroids dim' (\<lambda>w. w \<le> snd m)
                           first last' infos)
                    (\<lambda>res. Returns (SplitAt (fst res), snd res))
             else Returns (MakeLeaf, infos))"

section \<open>Construction: spatial splits\<close>

text \<open>The plane normal and the two axes of the splitting plane, by split axis.\<close>

fun clip_axes :: "EAxis \<Rightarrow> vec3 \<times> EAxis \<times> EAxis" where
  "clip_axes X = (Vec3 (Finite 1) (Finite 0) (Finite 0), Y, Z)"
| "clip_axes Y = (Vec3 (Finite 0) (Finite 1) (Finite 0), X, Z)"
| "clip_axes Z = (Vec3 (Finite 0) (Finite 0) (Finite 1), X, Y)"

text \<open>
  The point where the edge from \<open>pointBelow\<close> to \<open>pointAbove\<close> meets the splitting
  plane.  The source assigns all three components of \<^verbatim>\<open>isxPoint\<close>.
\<close>

definition isx_coord :: "EAxis \<Rightarrow> vec3 \<Rightarrow> vec3 \<Rightarrow> vec3 \<Rightarrow> EAxis \<Rightarrow> float" where
  "isx_coord dim' pointOnSplittingPlane pointAbove pointBelow a =
     fadd (fmul (fdiv (fsub (vidx pointBelow a) (vidx pointAbove a))
                      (fsub (vidx pointBelow dim') (vidx pointAbove dim')))
                (fsub (vidx pointOnSplittingPlane dim') (vidx pointAbove dim')))
          (vidx pointAbove a)"

definition isx_point :: "EAxis \<Rightarrow> vec3 \<Rightarrow> vec3 \<Rightarrow> vec3 \<Rightarrow> vec3" where
  "isx_point dim' pointOnSplittingPlane pointAbove pointBelow =
     (let a0 = fst (snd (clip_axes dim')); a1 = snd (snd (clip_axes dim'))
      in vset (vset (vset pointOnSplittingPlane dim' (vidx pointOnSplittingPlane dim'))
                 a0 (isx_coord dim' pointOnSplittingPlane pointAbove pointBelow a0))
           a1 (isx_coord dim' pointOnSplittingPlane pointAbove pointBelow a1))"

text \<open>A vertex extends the tight box when it lies strictly inside the slab of the bucket.\<close>

definition add_inner_vertex :: "EAxis \<Rightarrow> float \<Rightarrow> vec3 \<Rightarrow> BBox \<Rightarrow> vec3 \<Rightarrow> BBox" where
  "add_inner_vertex dim' bucketSize pointOnSplittingPlane box v =
     (if fless (fsub (vidx pointOnSplittingPlane dim') bucketSize) (vidx v dim')
         \<and> fless (vidx v dim') (vidx pointOnSplittingPlane dim')
      then BBoxUnionPoint box v else box)"

definition tight_bbox ::
  "EAxis \<Rightarrow> float \<Rightarrow> vec3 \<Rightarrow> vec3 \<times> vec3 \<times> vec3 \<Rightarrow> vec3 \<Rightarrow> vec3 list \<Rightarrow> BBox" where
  "tight_bbox dim' bucketSize pointOnSplittingPlane tri pointAbove pointsBelow =
     (case tri of (vert0, vert1, vert2) \<Rightarrow>
        foldl (add_inner_vertex dim' bucketSize pointOnSplittingPlane)
          (BBoxFromPoints (map (isx_point dim' pointOnSplittingPlane pointAbove) pointsBelow))
          [vert0, vert1, vert2])"

text \<open>
  Clipping a straddling triangle against the plane behind bucket \<open>bucket\<close>.  When
  exactly one vertex lies below the plane, none of the three cases of the source
  applies and \<^verbatim>\<open>pointAbove\<close> and \<^verbatim>\<open>pointsBelow\<close> are read uninitialised.
\<close>

definition clip_triangle ::
  "EAxis \<Rightarrow> float \<Rightarrow> vec3 \<Rightarrow> int \<Rightarrow> vec3 \<times> vec3 \<times> vec3 \<Rightarrow> BBox outcome" where
  "clip_triangle dim' bucketSize allMin bucket tri =
     (case tri of (vert0, vert1, vert2) \<Rightarrow>
       (let pointOnSplittingPlane =
              vset allMin dim'
                (fadd (fmul bucketSize (float_of_int (bucket + 1))) (vidx allMin dim'));
            planeNormal = fst (clip_axes dim');
            isVert0BelowPlane =
              fless (dot (vsub vert0 pointOnSplittingPlane) planeNormal) (Finite 0);
            isVert1BelowPlane =
              fless (dot (vsub vert1 pointOnSplittingPlane) planeNormal) (Finite 0);
            isVert2BelowPlane =
              fless (dot (vsub vert2 pointOnSplittingPlane) planeNormal) (Finite 0)
        in if isVert0BelowPlane \<and> isVert1BelowPlane \<and> isVert2BelowPlane
           then Fault AssertionFailed
           else if \<not> isVert0BelowPlane \<and> \<not> isVert1BelowPlane \<and> \<not> isVert2BelowPlane
           then Fault AssertionFailed
           else if isVert0BelowPlane \<and> isVert1BelowPlane
           then Returns (tight_bbox dim' bucketSize pointOnSplittingPlane tri vert2 [vert0, vert1])
           else if isVert0BelowPlane \<and> isVert2BelowPlane
           then Returns (tight_bbox dim' bucketSize pointOnSplittingPlane tri vert1 [vert0, vert2])
           else if isVert1BelowPlane \<and> isVert2BelowPlane
           then Returns (tight_bbox dim' bucketSize pointOnSplittingPlane tri vert0 [vert1, vert2])
           else Fault UninitialisedRead))"

text \<open>
  The state of the second loop: the working array (flags are set, fragments are
  appended) and the spatial buckets.  \<open>clip_loop\<close> is the inner loop over the buckets
  \<open>startEdgeBucket .. endEdgeBucket - 1\<close> for the primitive at index \<open>i\<close>; a
  primitive that is not a triangle is counted by its centroid, loses its flag and
  ends the loop.  Modelled from the spec: a fragment is created with its straddling
  flag unset (the struct is declared in the missing header).
\<close>

fun clip_loop ::
  "('r, 'h) Geometry list \<Rightarrow> BBox \<Rightarrow> BBox \<Rightarrow> EAxis \<Rightarrow> BucketInfo list \<Rightarrow> float \<Rightarrow> nat
     \<Rightarrow> int list \<Rightarrow> SBVHGeometryInfo list \<times> BucketInfo list
     \<Rightarrow> (SBVHGeometryInfo list \<times> BucketInfo list) outcome" where
  "clip_loop geoms bboxAllGeoms bboxCentroids dim' buckets bucketSize i [] st = Returns st"
| "clip_loop geoms bboxAllGeoms bboxCentroids dim' buckets bucketSize i (bucket # rest) st =
     (let infos = fst st; spatial = snd st; gi = infos ! i
      in if length geoms \<le> geometryId gi then Fault OutOfRange
         else case geom_triangle (geoms ! geometryId gi) of
           None \<Rightarrow>
             obind (centroid_slot bboxCentroids dim' gi)
               (\<lambda>k. Returns
                  (infos[i := gi\<lparr>straddling := False\<rparr>],
                   spatial[k := (spatial ! k)
                     \<lparr>b_count := b_count (spatial ! k) + 1,
                      b_bbox := BBoxUnion (b_bbox (buckets ! k)) (bbox gi)\<rparr>]))
         | Some tri \<Rightarrow>
             obind (clip_triangle dim' bucketSize (m_min bboxAllGeoms) bucket tri)
               (\<lambda>tight. obind (bucket_slot bucket)
                  (\<lambda>k. clip_loop geoms bboxAllGeoms bboxCentroids dim' buckets bucketSize i rest
                     (infos @ [\<lparr>geometryId = geometryId gi, bbox = tight, straddling = False\<rparr>],
                      spatial[k := (spatial ! k)
                        \<lparr>b_bbox := BBoxUnion tight (b_bbox (spatial ! k))\<rparr>]))))"

text \<open>The body of the second loop, for the primitive at index \<open>i\<close>.\<close>

definition spatial_step ::
  "('r, 'h) Geometry list \<Rightarrow> BBox \<Rightarrow> BBox \<Rightarrow> EAxis \<Rightarrow> BucketInfo list \<Rightarrow> float
     \<Rightarrow> SBVHGeometryInfo list \<times> BucketInfo list \<Rightarrow> nat
     \<Rightarrow> (SBVHGeometryInfo list \<times> BucketInfo list) outcome" where
  "spatial_step geoms bboxAllGeoms bboxCentroids dim' buckets bucketSize st i =
     (let infos = fst st; spatial = snd st; gi = infos ! i
      in obind (whichBucket_of bboxAllGeoms dim' (m_min (bbox gi)))
       (\<lambda>startEdgeBucket. obind (whichBucket_of bboxAllGeoms dim' (m_max (bbox gi)))
       (\<lambda>endEdgeBucket.
          if startEdgeBucket \<noteq> endEdgeBucket
          then obind (clip_loop geoms bboxAllGeoms bboxCentroids dim' buckets bucketSize i
                        [startEdgeBucket .. endEdgeBucket - 1]
                        (infos[i := gi\<lparr>straddling := True\<rparr>], spatial))
                 (\<lambda>st'. obind (bucket_slot startEdgeBucket)
                 (\<lambda>s. obind (bucket_slot endEdgeBucket)
                 (\<lambda>e. let sp1 = (snd st')[s := (snd st' ! s)\<lparr>b_enter := b_enter (snd st' ! s) + 1\<rparr>]
                       in Returns (fst st', sp1[e := (sp1 ! e)\<lparr>b_exit := b_exit (sp1 ! e) + 1\<rparr>]))))
          else obind (centroid_slot bboxCentroids dim' gi)
                 (\<lambda>k. Returns
                    (infos,
                     spatial[k := (spatial ! k)
                       \<lparr>b_count := b_count (spatial ! k) + 1,
                        b_bbox := BBoxUnion (b_bbox (buckets ! k)) (bbox gi)\<rparr>])))))"

text \<open>
  The variables of the loop over the eleven split candidates.  \<^verbatim>\<open>minSplitCostBucket\<close>
  is a \<^verbatim>\<open>float\<close> in the source.
\<close>

record split_search =
  minSplitCost :: float
  minSplitCostBucket :: float
  objectSplitCost :: float
  spatialSplitCost :: float
  isSpatialSplit :: bool

definition split_search_init :: split_search where
  "split_search_init =
     \<lparr>minSplitCost = PInf, minSplitCostBucket = Finite 0, objectSplitCost = PInf,
      spatialSplitCost = PInf, isSpatialSplit = False\<rparr>"

definition SAChildrenOverlap :: "BucketInfo list \<Rightarrow> nat \<Rightarrow> float" where
  "SAChildrenOverlap buckets i =
     GetSurfaceArea (BBoxOverlap (bbox0_of buckets i) (bbox1_of buckets i))"

text \<open>
  The spatial cost as the source computes it: the two boxes are reset before the
  spatial buckets are accumulated, the two counts are not.
\<close>

definition spatial_cost :: "float \<Rightarrow> BucketInfo list \<Rightarrow> BucketInfo list \<Rightarrow> nat \<Rightarrow> float" where
  "spatial_cost invAllGeometriesSA buckets spatialSplitBuckets i =
     split_cost invAllGeometriesSA
       (count0_of buckets i + count0_of spatialSplitBuckets i) (bbox0_of spatialSplitBuckets i)
       (count1_of buckets i + count1_of spatialSplitBuckets i) (bbox1_of spatialSplitBuckets i)"

text \<open>The choice between the two candidates at boundary \<open>i\<close>.\<close>

definition select_candidate :: "nat \<Rightarrow> split_search \<Rightarrow> split_search" where
  "select_candidate i s =
     (if fless (objectSplitCost s) (spatialSplitCost s)
      then (if fless (objectSplitCost s) (minSplitCost s)
            then s\<lparr>minSplitCost := objectSplitCost s,
                   minSplitCostBucket := float_of_int (int i), isSpatialSplit := False\<rparr>
            else s)
      else (if fless (spatialSplitCost s) (minSplitCost s)
            then s\<lparr>minSplitCost := spatialSplitCost s,
                   minSplitCostBucket := float_of_int (int i), isSpatialSplit := True\<rparr>
            else s))"

definition restriction_met :: "float \<Rightarrow> BucketInfo list \<Rightarrow> nat \<Rightarrow> bool" where
  "restriction_met invAllGeometriesSA buckets i =
     fless RESTRICT_ALPHA (fmul (SAChildrenOverlap buckets i) invAllGeometriesSA)"

definition search_step ::
  "float \<Rightarrow> BucketInfo list \<Rightarrow> BucketInfo list \<Rightarrow> split_search \<Rightarrow> nat \<Rightarrow> split_search" where
  "search_step invAllGeometriesSA buckets spatialSplitBuckets s i =
     (let s1 = s\<lparr>objectSplitCost := object_cost invAllGeometriesSA buckets i\<rparr>;
          s2 = (if restriction_met invAllGeometriesSA buckets i
                then s1\<lparr>spatialSplitCost :=
                          spatial_cost invAllGeometriesSA buckets spatialSplitBuckets i\<rparr>
                else s1)
      in select_candidate i s2)"

definition find_split :: "float \<Rightarrow> BucketInfo list \<Rightarrow> BucketInfo list \<Rightarrow> split_search" where
  "find_split invAllGeometriesSA buckets spatialSplitBuckets =
     foldl (search_step invAllGeometriesSA buckets spatialSplitBuckets) split_search_init
       [0..<nat (NUM_BUCKET - 1)]"

text \<open>
  The pass over the range after a spatial split has won: \<^verbatim>\<open>std::remove_if\<close> with
  the straddling flag as predicate.  The iterator it returns is discarded and the
  bounds \<^verbatim>\<open>first\<close> and \<^verbatim>\<open>last\<close> stay as they are, so the pass rewrites the
  range in place and nothing is erased from the array.
\<close>

definition remove_straddling ::
  "stl \<Rightarrow> int \<Rightarrow> int \<Rightarrow> SBVHGeometryInfo list \<Rightarrow> SBVHGeometryInfo list" where
  "remove_straddling L first last' infos =
     set_range infos first (std_remove_if L straddling (range_of infos first last'))"

text \<open>The branch \<^verbatim>\<open>case SpatialSplit_SAH\<close> for more than four primitives.\<close>

definition Spatial_split ::
  "stl \<Rightarrow> int \<Rightarrow> ('r, 'h) Geometry list \<Rightarrow> BBox \<Rightarrow> BBox \<Rightarrow> EAxis \<Rightarrow> float \<Rightarrow> int \<Rightarrow> int
     \<Rightarrow> SBVHGeometryInfo list \<Rightarrow> (split_decision \<times> SBVHGeometryInfo list) outcome" where
  "Spatial_split L maxGeomsInNode geoms bboxAllGeoms bboxCentroids dim' invAllGeometriesSA
       first last' infos =
     obind (fill_buckets bboxCentroids dim' (range_of infos first last'))
       (\<lambda>buckets.
          let bucketSize =
                fdiv (fsub (vidx (m_max bboxAllGeoms) dim') (vidx (m_min bboxAllGeoms) dim'))
                  (float_of_int NUM_BUCKET)
          in obind (ofoldl (spatial_step geoms bboxAllGeoms bboxCentroids dim' buckets bucketSize)
                      (infos, new_buckets) [nat first..<nat last'])
            (\<lambda>st.
               let s = find_split invAllGeometriesSA buckets (snd st);
                   infos' =
                     (if isSpatialSplit s then remove_straddling L first last' (fst st)
                      else fst st);
                   numPrimitives = last' - first;
                   leafCost = fmul (float_of_int numPrimitives) COST_INTERSECTION
               in if maxGeomsInNode < numPrimitives \<or> fless (minSplitCost s) leafCost
                  then obind (partition_by_bucket L bboxCentroids dim'
                                (\<lambda>w. fle (float_of_int w) (minSplitCostBucket s))
                                first last' infos')
                         (\<lambda>res. Returns (SplitAt (fst res), snd res))
                  else Returns (MakeLeaf, infos')))"

section \<open>Construction: the recursion\<close>

text \<open>
  Creating a leaf for the range: its primitives are appended to the reordered array
  and the node counter is advanced.
\<close>

definition make_leaf ::
  "('r, 'h) Geometry list \<Rightarrow> ('r, 'h) build_state \<Rightarrow> int \<Rightarrow> int \<Rightarrow> BBox
     \<Rightarrow> (SBVHNode \<times> ('r, 'h) build_state) outcome" where
  "make_leaf geoms st first last' bboxAllGeoms =
     (let ids = map geometryId (range_of (geomInfos st) first last')
      in if list_all (\<lambda>geomIdx. geomIdx < length geoms) ids
         then Returns
                (SBVHLeaf (nodeCount st) (length (orderedGeoms st)) (nat (last' - first))
                   bboxAllGeoms,
                 st\<lparr>orderedGeoms := orderedGeoms st @ map (\<lambda>geomIdx. geoms ! geomIdx) ids,
                    nodeCount := nodeCount st + 1\<rparr>)
         else Fault OutOfRange)"

definition bbox_of_range :: "SBVHGeometryInfo list \<Rightarrow> BBox" where
  "bbox_of_range rng = foldl (\<lambda>b gi. BBoxUnion b (bbox gi)) BBox_empty rng"

definition centroid_bbox_of_range :: "SBVHGeometryInfo list \<Rightarrow> BBox" where
  "centroid_bbox_of_range rng =
     foldl (\<lambda>b gi. BBoxUnionPoint b (m_centroid (bbox gi))) BBox_empty rng"

text \<open>The \<^verbatim>\<open>switch\<close> on the split method: a decision and the updated working array.\<close>

definition choose_split ::
  "stl \<Rightarrow> SplitMethod \<Rightarrow> int \<Rightarrow> ('r, 'h) Geometry list \<Rightarrow> BBox \<Rightarrow> BBox \<Rightarrow> EAxis \<Rightarrow> int \<Rightarrow> int
     \<Rightarrow> SBVHGeometryInfo list \<Rightarrow> (split_decision \<times> SBVHGeometryInfo list) outcome" where
  "choose_split L splitMethod maxGeomsInNode geoms bboxAllGeoms bboxCentroids dim' first last' infos =
     (let numPrimitives = last' - first;
          invAllGeometriesSA = fdiv (Finite 1) (GetSurfaceArea bboxAllGeoms);
          equalCounts = PartitionEqualCounts L dim' first last' infos
      in case splitMethod of
           SpatialSplit_SAH \<Rightarrow>
             if numPrimitives \<le> 4 then Returns (SplitAt (fst equalCounts), snd equalCounts)
             else Spatial_split L maxGeomsInNode geoms bboxAllGeoms bboxCentroids dim'
                    invAllGeometriesSA first last' infos
         | SAH \<Rightarrow>
             if numPrimitives \<le> 4 then Returns (SplitAt (fst equalCounts), snd equalCounts)
             else SAH_split L maxGeomsInNode bboxCentroids dim' invAllGeometriesSA
                    first last' infos
         | EqualCounts \<Rightarrow> Returns (SplitAt (fst equalCounts), snd equalCounts))"

text \<open>
  \<^verbatim>\<open>SBVH::BuildRecursive\<close>.  The first argument bounds the depth of the recursion.
  The members \<^verbatim>\<open>m_splitMethod\<close>, \<^verbatim>\<open>m_maxGeomsInNode\<close> and \<^verbatim>\<open>m_geoms\<close> (the
  primitives in the caller's order) are read only and passed as arguments.  Reading
  the working array behind its end is undefined behaviour.
\<close>

fun BuildRecursive ::
  "nat \<Rightarrow> stl \<Rightarrow> SplitMethod \<Rightarrow> int \<Rightarrow> ('r, 'h) Geometry list \<Rightarrow> ('r, 'h) build_state
     \<Rightarrow> int \<Rightarrow> int \<Rightarrow> (SBVHNode \<times> ('r, 'h) build_state) outcome" where
  "BuildRecursive 0 L splitMethod maxGeomsInNode geoms st first last' = Diverges"
| "BuildRecursive (Suc fuel) L splitMethod maxGeomsInNode geoms st first last' =
     (if last' < first \<or> last' < 0 \<or> first < 0 then Returns (Nullptr, st)
      else if int (length (geomInfos st)) < last' then Fault OutOfRange
      else
        let rng = range_of (geomInfos st) first last';
            bboxAllGeoms = bbox_of_range rng;
            numPrimitives = last' - first
        in if numPrimitives = 1 then make_leaf geoms st first last' bboxAllGeoms
           else
             let bboxCentroids = centroid_bbox_of_range rng;
                 dim' = BBoxMaximumExtent bboxCentroids
             in if feq (vidx (m_max bboxCentroids) dim') (vidx (m_min bboxCentroids) dim')
                then make_leaf geoms st first last' bboxAllGeoms
                else
                  obind (choose_split L splitMethod maxGeomsInNode geoms bboxAllGeoms
                           bboxCentroids dim' first last' (geomInfos st))
                    (\<lambda>d. case fst d of
                       MakeLeaf \<Rightarrow>
                         make_leaf geoms (st\<lparr>geomInfos := snd d\<rparr>) first last' bboxAllGeoms
                     | SplitAt mid \<Rightarrow>
                         obind (BuildRecursive fuel L splitMethod maxGeomsInNode geoms
                                  (st\<lparr>geomInfos := snd d\<rparr>) first mid)
                           (\<lambda>nearRes.
                              obind (BuildRecursive fuel L splitMethod maxGeomsInNode geoms
                                       (snd nearRes) mid last')
                                (\<lambda>farRes.
                                   Returns
                                     (new_SBVHNode (fst nearRes) (fst farRes)
                                        (nodeCount (snd farRes)) dim',
                                      (snd farRes)\<lparr>nodeCount := nodeCount (snd farRes) + 1\<rparr>)))))"

text \<open>\<^verbatim>\<open>SBVH::FlattenRecursive\<close>: the nodes in pre-order.\<close>

fun FlattenRecursive :: "SBVHNode \<Rightarrow> SBVHNode list" where
  "FlattenRecursive Nullptr = []"
| "FlattenRecursive (SBVHLeaf i off n b) = [SBVHLeaf i off n b]"
| "FlattenRecursive (SBVHInterior l r i ax b) =
     SBVHInterior l r i ax b # FlattenRecursive l @ FlattenRecursive r"

text \<open>
  \<^verbatim>\<open>SBVH::Build\<close>: one geometry info per primitive, the recursion over the whole
  array, then the reordered primitives replace \<^verbatim>\<open>m_geoms\<close> and the tree is
  flattened.
\<close>

definition initial_infos :: "('r, 'h) Geometry list \<Rightarrow> SBVHGeometryInfo list" where
  "initial_infos geoms =
     map (\<lambda>i. \<lparr>geometryId = i, bbox = geom_GetBBox (geoms ! i), straddling = False\<rparr>)
       [0..<length geoms]"

definition Build ::
  "nat \<Rightarrow> stl \<Rightarrow> ('r, 'h) SBVH \<Rightarrow> ('r, 'h) Geometry list \<Rightarrow> ('r, 'h) SBVH outcome" where
  "Build fuel L sbvh geoms =
     obind (BuildRecursive fuel L (m_splitMethod sbvh) (m_maxGeomsInNode sbvh) geoms
              \<lparr>geomInfos = initial_infos geoms, nodeCount = 0, orderedGeoms = []\<rparr>
              0 (int (length geoms)))
       (\<lambda>res. Returns
          (sbvh\<lparr>m_geoms := orderedGeoms (snd res), m_root := fst res,
                m_nodes := m_nodes sbvh @ FlattenRecursive (fst res)\<rparr>))"

section \<open>The second cost of a spatial split, as the specification words it\<close>

text \<open>
  The spatial cost where the restriction is not met: the variable \<^verbatim>\<open>spatialSplitCost\<close>
  is declared outside the loop, so the comparison uses the value a previous boundary
  left in it (infinity at first).
\<close>

definition spatial_cost_in_effect ::
  "float \<Rightarrow> BucketInfo list \<Rightarrow> BucketInfo list \<Rightarrow> split_search \<Rightarrow> nat \<Rightarrow> float" where
  "spatial_cost_in_effect invAllGeometriesSA buckets spatialSplitBuckets s i =
     (if restriction_met invAllGeometriesSA buckets i
      then spatial_cost invAllGeometriesSA buckets spatialSplitBuckets i
      else spatialSplitCost s)"

text \<open>
  The formula of the specification: counts and boxes of the spatial buckets only.
\<close>

definition spatial_cost_spec :: "float \<Rightarrow> BucketInfo list \<Rightarrow> nat \<Rightarrow> float" where
  "spatial_cost_spec invAllGeometriesSA spatialSplitBuckets i =
     split_cost invAllGeometriesSA
       (count0_of spatialSplitBuckets i) (bbox0_of spatialSplitBuckets i)
       (count1_of spatialSplitBuckets i) (bbox1_of spatialSplitBuckets i)"

section \<open>The decision for one range\<close>

text \<open>
  The part of \<^verbatim>\<open>BuildRecursive\<close> that precedes the recursive calls, as a function
  of the working array: no node for an invalid range, a leaf, or a split at \<open>mid\<close>
  along \<open>dim\<close>, each with the working array as it is at that point and, for a leaf,
  the box of the range.
\<close>

datatype range_decision =
    NoNode
  | LeafHere "SBVHGeometryInfo list" BBox
  | SplitHere EAxis int "SBVHGeometryInfo list"

definition decide_range ::
  "stl \<Rightarrow> SplitMethod \<Rightarrow> int \<Rightarrow> ('r, 'h) Geometry list \<Rightarrow> SBVHGeometryInfo list \<Rightarrow> int \<Rightarrow> int
     \<Rightarrow> range_decision outcome" where
  "decide_range L splitMethod maxGeomsInNode geoms infos first last' =
     (if last' < first \<or> last' < 0 \<or> first < 0 then Returns NoNode
      else if int (length infos) < last' then Fault OutOfRange
      else
        let rng = range_of infos first last';
            bboxAllGeoms = bbox_of_range rng
        in if last' - first = 1 then Returns (LeafHere infos bboxAllGeoms)
           else
             let bboxCentroids = centroid_bbox_of_range rng;
                 dim' = BBoxMaximumExtent bboxCentroids
             in if feq (vidx (m_max bboxCentroids) dim') (vidx (m_min bboxCentroids) dim')
                then Returns (LeafHere infos bboxAllGeoms)
                else
                  obind (choose_split L splitMethod maxGeomsInNode geoms bboxAllGeoms
                           bboxCentroids dim' first last' infos)
                    (\<lambda>d. case fst d of
                       MakeLeaf \<Rightarrow> Returns (LeafHere (snd d) bboxAllGeoms)
                     | SplitAt mid \<Rightarrow> Returns (SplitHere dim' mid (snd d))))"

section \<open>Properties of trees\<close>

text \<open>A child is null or carries a build index below \<open>i\<close>.\<close>

fun child_below :: "nat \<Rightarrow> SBVHNode \<Rightarrow> bool" where
  "child_below i Nullptr = True"
| "child_below i (SBVHLeaf j off n b) = (j < i)"
| "child_below i (SBVHInterior l r j ax b) = (j < i)"

text \<open>Every interior node of the tree has a build index above those of its children.\<close>

fun index_above_children :: "SBVHNode \<Rightarrow> bool" where
  "index_above_children Nullptr = True"
| "index_above_children (SBVHLeaf j off n b) = True"
| "index_above_children (SBVHInterior l r i ax b) =
     (child_below i l \<and> child_below i r \<and> index_above_children l \<and> index_above_children r)"

text \<open>Every build index of the tree lies in \<open>[lo, hi)\<close>.\<close>

fun indices_within :: "nat \<Rightarrow> nat \<Rightarrow> SBVHNode \<Rightarrow> bool" where
  "indices_within lo hi Nullptr = True"
| "indices_within lo hi (SBVHLeaf j off n b) = (lo \<le> j \<and> j < hi)"
| "indices_within lo hi (SBVHInterior l r i ax b) =
     (lo \<le> i \<and> i < hi \<and> indices_within lo hi l \<and> indices_within lo hi r)"

text \<open>No interior node of the tree has a null child.\<close>

fun no_null_child :: "SBVHNode \<Rightarrow> bool" where
  "no_null_child Nullptr = True"
| "no_null_child (SBVHLeaf j off n b) = True"
| "no_null_child (SBVHInterior l r i ax b) =
     (l \<noteq> Nullptr \<and> r \<noteq> Nullptr \<and> no_null_child l \<and> no_null_child r)"

fun is_leaf :: "SBVHNode \<Rightarrow> bool" where
  "is_leaf (SBVHLeaf j off n b) = True"
| "is_leaf _ = False"

fun is_interior :: "SBVHNode \<Rightarrow> bool" where
  "is_interior (SBVHInterior l r i ax b) = True"
| "is_interior _ = False"

text \<open>
  The positions of the reordered array that the leaves of the tree refer to, from
  the nearest leaf to the farthest.
\<close>

fun leaf_positions :: "SBVHNode \<Rightarrow> nat list" where
  "leaf_positions Nullptr = []"
| "leaf_positions (SBVHLeaf j off n b) = [off..<off + n]"
| "leaf_positions (SBVHInterior l r i ax b) = leaf_positions l @ leaf_positions r"

text \<open>
  The working array \<open>xs'\<close> is the array \<open>xs\<close> with the elements at the indices from
  \<open>f\<close> up to \<open>l\<close> rearranged and every other element in its place.
\<close>

definition rearranged :: "'a list \<Rightarrow> 'a list \<Rightarrow> nat \<Rightarrow> nat \<Rightarrow> bool" where
  "rearranged xs' xs f l =
     (length xs' = length xs \<and> mset xs' = mset xs
      \<and> take f xs' = take f xs \<and> drop l xs' = drop l xs)"

section \<open>Concrete scenes\<close>

text \<open>
  Scenes on which the construction is run.  There is one ray, so the type of rays
  is \<open>unit\<close> and a primitive is given with the intersection it reports for that
  ray.  The box of a triangle is the box of its vertices.  Every coordinate of a
  scene is a binary32 number.
\<close>

definition P3 :: "real \<Rightarrow> real \<Rightarrow> real \<Rightarrow> vec3" where
  "P3 a b c = Vec3 (Finite a) (Finite b) (Finite c)"

definition hit_at :: "real \<Rightarrow> nat \<Rightarrow> nat Intersection" where
  "hit_at d k = \<lparr>isx_t = Finite d, isx_data = k\<rparr>"

definition triangle_geom ::
  "vec3 \<Rightarrow> vec3 \<Rightarrow> vec3 \<Rightarrow> nat Intersection \<Rightarrow> (unit, nat) Geometry" where
  "triangle_geom a b c isx =
     \<lparr>geom_GetBBox = BBoxFromPoints [a, b, c], geom_GetIntersection = (\<lambda>r. isx),
      geom_triangle = Some (a, b, c)\<rparr>"

definition box_geom :: "vec3 \<Rightarrow> vec3 \<Rightarrow> nat Intersection \<Rightarrow> (unit, nat) Geometry" where
  "box_geom lo hi isx =
     \<lparr>geom_GetBBox = BBox_of_corners lo hi, geom_GetIntersection = (\<lambda>r. isx),
      geom_triangle = None\<rparr>"

definition new_SBVH :: "SplitMethod \<Rightarrow> int \<Rightarrow> (unit, nat) SBVH" where
  "new_SBVH splitMethod maxGeomsInNode =
     \<lparr>m_geoms = [], m_root = Nullptr, m_nodes = [], m_splitMethod = splitMethod,
      m_maxGeomsInNode = maxGeomsInNode\<rparr>"

text \<open>Three unit boxes along the x axis, given out of order.\<close>

definition three_boxes :: "(unit, nat) Geometry list" where
  "three_boxes =
     [box_geom (P3 4 0 0) (P3 5 1 1) (hit_at 3 0),
      box_geom (P3 0 0 0) (P3 1 1 1) (hit_at 1 1),
      box_geom (P3 2 0 0) (P3 3 1 1) (hit_at 2 2)]"

text \<open>Two boxes around the same centre.\<close>

definition stacked_boxes :: "(unit, nat) Geometry list" where
  "stacked_boxes =
     [box_geom (P3 0 0 0) (P3 2 2 2) (hit_at 1 0),
      box_geom (P3 (1/2) (1/2) (1/2)) (P3 (3/2) (3/2) (3/2)) (hit_at 2 1)]"

text \<open>
  Five triangles in the plane \<open>z = 0\<close> with a common corner: one reaches to
  \<open>x = 7\<close>, four reach to \<open>x = 8\<close>.
\<close>

definition wide_triangle :: "real \<Rightarrow> real \<Rightarrow> nat Intersection \<Rightarrow> (unit, nat) Geometry" where
  "wide_triangle w c isx = triangle_geom (P3 0 0 c) (P3 w 0 c) (P3 0 1 c) isx"


text \<open>A vector none of whose components is NaN.\<close>

fun has_no_NaN :: "vec3 \<Rightarrow> bool" where
  "has_no_NaN (Vec3 a b c) = (a \<noteq> NaN \<and> b \<noteq> NaN \<and> c \<noteq> NaN)"

text \<open>
  What building the range \<open>[first, last)\<close> from the state \<open>st\<close> has done when it
  returns the node \<open>node\<close> and the state \<open>st'\<close>: the range of the working array is
  rearranged; the primitives of the range, each once, are appended to the reordered
  array; the leaves of \<open>node\<close> refer to the appended positions in order; and \<open>node\<close>
  is a node without null children.
\<close>

definition covers_range ::
  "('r, 'h) Geometry list \<Rightarrow> ('r, 'h) build_state \<Rightarrow> int \<Rightarrow> int \<Rightarrow> SBVHNode
     \<Rightarrow> ('r, 'h) build_state \<Rightarrow> bool" where
  "covers_range geoms st first last' node st' =
     (rearranged (geomInfos st') (geomInfos st) (nat first) (nat last')
      \<and> (\<exists>ids. orderedGeoms st' = orderedGeoms st @ map (\<lambda>i. geoms ! i) ids
             \<and> mset ids = mset (map geometryId (range_of (geomInfos st) first last')))
      \<and> leaf_positions node =
          [length (orderedGeoms st) ..< length (orderedGeoms st) + nat (last' - first)]
      \<and> node \<noteq> Nullptr \<and> no_null_child node)"





section \<open>The reference for the nearest hit\<close>

text \<open>
  The reference the specification compares \<^verbatim>\<open>GetIntersection\<close> with: every
  primitive of the input is tested, the intersections at a distance above 0 are
  kept, and the one with the smallest distance is the result (the first of them
  among equals); \<open>noIsx\<close> is the result when no primitive is hit.
\<close>

definition closer :: "'h Intersection \<Rightarrow> 'h Intersection \<Rightarrow> 'h Intersection" where
  "closer a b = (if fless (isx_t b) (isx_t a) then b else a)"

definition brute_force_nearest ::
  "'h Intersection \<Rightarrow> ('r, 'h) Geometry list \<Rightarrow> 'r \<Rightarrow> 'h Intersection" where
  "brute_force_nearest noIsx geoms r =
     (case filter (\<lambda>isx. fless (Finite 0) (isx_t isx))
             (map (\<lambda>geom. geom_GetIntersection geom r) geoms) of
        [] \<Rightarrow> noIsx
      | isx # rest \<Rightarrow> foldl closer isx rest)"

section \<open>A scene with one straddling triangle\<close>

text \<open>
  A small box at \<open>x = 0\<close>, a thin triangle in the plane \<open>y = z\<close> between \<open>x = 1\<close>
  and \<open>x = 9/4\<close>, and three copies of a plate between \<open>x = 1\<close> and \<open>x = 12\<close>.  The
  ray starts at \<open>(11/10, 10, 9)\<close> and runs along the z axis: it meets the triangle
  at distance 1 and misses the boxes, which report the distance \<open>-1\<close>.  The
  primitives are numbered by their position in the scene.
\<close>

definition pebble :: "nat \<Rightarrow> (unit, nat) Geometry" where
  "pebble k = box_geom (P3 0 (399/8) (399/8)) (P3 (1/4) (401/8) (401/8)) (hit_at (-1) k)"

definition sliver :: "nat \<Rightarrow> (unit, nat) Geometry" where
  "sliver k = triangle_geom (P3 1 0 0) (P3 1 100 100) (P3 (9/4) 50 50) (hit_at 1 k)"

definition plate :: "nat \<Rightarrow> (unit, nat) Geometry" where
  "plate k = box_geom (P3 1 25 25) (P3 12 75 75) (hit_at (-1) k)"

definition sliver_scene :: "(unit, nat) Geometry list" where
  "sliver_scene = [pebble 0, sliver 1, plate 2, plate 3, plate 4]"

definition sliver_last_scene :: "(unit, nat) Geometry list" where
  "sliver_last_scene = [pebble 0, plate 1, plate 2, plate 3, sliver 4]"

text \<open>Values computed for the two scenes: boxes, geometry infos and buckets.\<close>

definition pebble_box :: BBox where
  "pebble_box = BBox_of_corners (P3 0 (399/8) (399/8)) (P3 (1/4) (401/8) (401/8))"

definition sliver_bbox :: BBox where
  "sliver_bbox = BBox_of_corners (P3 1 0 0) (P3 (9/4) 100 100)"

definition plate_box :: BBox where
  "plate_box = BBox_of_corners (P3 1 25 25) (P3 12 75 75)"

definition fragment_box :: BBox where
  "fragment_box = BBox_of_corners (P3 2 40 40) (P3 2 60 60)"

definition info :: "nat \<Rightarrow> BBox \<Rightarrow> bool \<Rightarrow> SBVHGeometryInfo" where
  "info k b f = \<lparr>geometryId = k, bbox = b, straddling = f\<rparr>"

definition sliver_infos :: "SBVHGeometryInfo list" where
  "sliver_infos =
     [info 0 pebble_box False, info 1 sliver_bbox False, info 2 plate_box False,
      info 3 plate_box False, info 4 plate_box False]"

definition sliver_last_infos :: "SBVHGeometryInfo list" where
  "sliver_last_infos =
     [info 0 pebble_box False, info 1 plate_box False, info 2 plate_box False,
      info 3 plate_box False, info 4 sliver_bbox False]"

definition scene_box :: BBox where
  "scene_box = BBox_of_corners (P3 0 0 0) (P3 12 100 100)"

definition scene_centroid_box :: BBox where
  "scene_centroid_box = BBox_of_corners (P3 (1/8) 50 50) (P3 (13/2) 50 50)"

definition object_buckets :: "BucketInfo list" where
  "object_buckets =
     [\<lparr>b_count = 1, b_bbox = pebble_box, b_enter = 0, b_exit = 0\<rparr>,
      empty_bucket,
      \<lparr>b_count = 1, b_bbox = sliver_bbox, b_enter = 0, b_exit = 0\<rparr>,
      empty_bucket, empty_bucket, empty_bucket, empty_bucket, empty_bucket,
      empty_bucket, empty_bucket, empty_bucket,
      \<lparr>b_count = 3, b_bbox = plate_box, b_enter = 0, b_exit = 0\<rparr>]"

definition spatial_buckets :: "BucketInfo list" where
  "spatial_buckets =
     [\<lparr>b_count = 1, b_bbox = pebble_box, b_enter = 0, b_exit = 0\<rparr>,
      \<lparr>b_count = 0, b_bbox = fragment_box, b_enter = 4, b_exit = 0\<rparr>,
      \<lparr>b_count = 0, b_bbox = BBox_empty, b_enter = 0, b_exit = 1\<rparr>,
      empty_bucket, empty_bucket, empty_bucket, empty_bucket, empty_bucket,
      empty_bucket, empty_bucket, empty_bucket,
      \<lparr>b_count = 3, b_bbox = plate_box, b_enter = 0, b_exit = 3\<rparr>]"

text \<open>
  The working array of each scene after the clipping loop (the triangle is flagged
  and its fragment is appended) and after the split of the root range has been
  decided; the tree and the reordered primitives built from \<open>sliver_scene\<close>.
\<close>

definition sliver_clipped :: "SBVHGeometryInfo list" where
  "sliver_clipped =
     [info 0 pebble_box False, info 1 sliver_bbox True, info 2 plate_box False,
      info 3 plate_box False, info 4 plate_box False, info 1 fragment_box False]"

definition sliver_last_clipped :: "SBVHGeometryInfo list" where
  "sliver_last_clipped =
     [info 0 pebble_box False, info 1 plate_box False, info 2 plate_box False,
      info 3 plate_box False, info 4 sliver_bbox True, info 4 fragment_box False]"

definition sliver_after_split :: "SBVHGeometryInfo list" where
  "sliver_after_split =
     [info 0 pebble_box False, info 2 plate_box False, info 3 plate_box False,
      info 4 plate_box False, info 4 plate_box False, info 1 fragment_box False]"

definition sliver_last_after_split :: "SBVHGeometryInfo list" where
  "sliver_last_after_split =
     [info 0 pebble_box False, info 4 sliver_bbox True, info 1 plate_box False,
      info 2 plate_box False, info 3 plate_box False, info 4 fragment_box False]"

definition sliver_root :: SBVHNode where
  "sliver_root = new_SBVHNode (SBVHLeaf 0 0 1 pebble_box) (SBVHLeaf 1 1 4 plate_box) 2 X"

definition sliver_geoms :: "(unit, nat) Geometry list" where
  "sliver_geoms = [pebble 0, plate 2, plate 3, plate 4, plate 4]"

section \<open>A scene with a tie between the two candidates\<close>

text \<open>
  The same arrangement with other measures: a small box at \<open>x = 0\<close>, a thin
  triangle in the plane \<open>y = z\<close> between \<open>x = 1\<close> and \<open>x = 9/4\<close>, and three
  copies of a plate between \<open>x = 1\<close> and \<open>x = 12\<close> that overlaps the box of
  the triangle; then the values computed for the scene.
\<close>

definition tie_pebble :: "nat \<Rightarrow> (unit, nat) Geometry" where
  "tie_pebble k =
     box_geom (P3 0 (359/8) (359/8)) (P3 (1/4) (361/8) (361/8)) (hit_at (-1) k)"

definition tie_sliver :: "nat \<Rightarrow> (unit, nat) Geometry" where
  "tie_sliver k = triangle_geom (P3 1 0 0) (P3 1 90 90) (P3 (9/4) 45 45) (hit_at 1 k)"

definition tie_plate :: "nat \<Rightarrow> (unit, nat) Geometry" where
  "tie_plate k = box_geom (P3 1 18 9) (P3 12 72 81) (hit_at (-1) k)"

definition tie_scene :: "(unit, nat) Geometry list" where
  "tie_scene = [tie_pebble 0, tie_sliver 1, tie_plate 2, tie_plate 3, tie_plate 4]"

definition tie_pebble_box :: BBox where
  "tie_pebble_box = BBox_of_corners (P3 0 (359/8) (359/8)) (P3 (1/4) (361/8) (361/8))"

definition tie_sliver_bbox :: BBox where
  "tie_sliver_bbox = BBox_of_corners (P3 1 0 0) (P3 (9/4) 90 90)"

definition tie_plate_box :: BBox where
  "tie_plate_box = BBox_of_corners (P3 1 18 9) (P3 12 72 81)"

definition tie_fragment_box :: BBox where
  "tie_fragment_box = BBox_of_corners (P3 2 36 36) (P3 2 54 54)"

definition tie_infos :: "SBVHGeometryInfo list" where
  "tie_infos =
     [info 0 tie_pebble_box False, info 1 tie_sliver_bbox False, info 2 tie_plate_box False,
      info 3 tie_plate_box False, info 4 tie_plate_box False]"

definition tie_clipped :: "SBVHGeometryInfo list" where
  "tie_clipped =
     [info 0 tie_pebble_box False, info 1 tie_sliver_bbox True, info 2 tie_plate_box False,
      info 3 tie_plate_box False, info 4 tie_plate_box False, info 1 tie_fragment_box False]"

definition tie_box :: BBox where
  "tie_box = BBox_of_corners (P3 0 0 0) (P3 12 90 90)"

definition tie_centroid_box :: BBox where
  "tie_centroid_box = BBox_of_corners (P3 (1/8) 45 45) (P3 (13/2) 45 45)"

definition tie_object_buckets :: "BucketInfo list" where
  "tie_object_buckets =
     [\<lparr>b_count = 1, b_bbox = tie_pebble_box, b_enter = 0, b_exit = 0\<rparr>,
      empty_bucket,
      \<lparr>b_count = 1, b_bbox = tie_sliver_bbox, b_enter = 0, b_exit = 0\<rparr>,
      empty_bucket, empty_bucket, empty_bucket, empty_bucket, empty_bucket,
      empty_bucket, empty_bucket, empty_bucket,
      \<lparr>b_count = 3, b_bbox = tie_plate_box, b_enter = 0, b_exit = 0\<rparr>]"

definition tie_spatial_buckets :: "BucketInfo list" where
  "tie_spatial_buckets =
     [\<lparr>b_count = 1, b_bbox = tie_pebble_box, b_enter = 0, b_exit = 0\<rparr>,
      \<lparr>b_count = 0, b_bbox = tie_fragment_box, b_enter = 4, b_exit = 0\<rparr>,
      \<lparr>b_count = 0, b_bbox = BBox_empty, b_enter = 0, b_exit = 1\<rparr>,
      empty_bucket, empty_bucket, empty_bucket, empty_bucket, empty_bucket,
      empty_bucket, empty_bucket, empty_bucket,
      \<lparr>b_count = 3, b_bbox = tie_plate_box, b_enter = 0, b_exit = 3\<rparr>]"

text \<open>The variables of the search on that scene before boundary 2.\<close>

definition tie_search_before :: split_search where
  "tie_search_before =
     \<lparr>minSplitCost = Finite (4251811/1048576), minSplitCostBucket = Finite 0,
      objectSplitCost = Finite (4251811/1048576), spatialSplitCost = PInf,
      isSpatialSplit = False\<rparr>"


section \<open>Scenes for the decision between a leaf and a split\<close>

text \<open>
  Eight triangles in the plane \<open>z = 0\<close> with a common corner: one reaches to
  \<open>x = 287\<close>, seven reach to \<open>x = 328\<close>; then the values computed for the scene.
\<close>

definition eight_scene :: "(unit, nat) Geometry list" where
  "eight_scene =
     [wide_triangle 287 0 (hit_at 1 0), wide_triangle 328 0 (hit_at 1 1),
      wide_triangle 328 0 (hit_at 1 2), wide_triangle 328 0 (hit_at 1 3),
      wide_triangle 328 0 (hit_at 1 4), wide_triangle 328 0 (hit_at 1 5),
      wide_triangle 328 0 (hit_at 1 6), wide_triangle 328 0 (hit_at 1 7)]"

definition short_box :: BBox where
  "short_box = BBox_of_corners (P3 0 0 0) (P3 287 1 0)"

definition eight_box :: BBox where
  "eight_box = BBox_of_corners (P3 0 0 0) (P3 328 1 0)"

definition eight_centroid_box :: BBox where
  "eight_centroid_box = BBox_of_corners (P3 (287/2) (1/2) 0) (P3 164 (1/2) 0)"

definition eight_infos :: "SBVHGeometryInfo list" where
  "eight_infos =
     [info 0 short_box False, info 1 eight_box False, info 2 eight_box False,
      info 3 eight_box False, info 4 eight_box False, info 5 eight_box False,
      info 6 eight_box False, info 7 eight_box False]"



section \<open>Facts about the arithmetic\<close>

declare binade_up.simps [simp del] binade_down.simps [simp del]

text \<open>The equations that evaluate a rounding on a rational number.\<close>

lemmas round32_eval =
  round32_def signed_value_def nearest_multiple_def round_even_def nearest_even_def
  binade_def binade_up.simps binade_down.simps pow2_def

text \<open>
  Known binary32 values: the literals \<^verbatim>\<open>0.1f\<close> and \<^verbatim>\<open>0.2f\<close>, a third, ties
  between neighbours above \<open>2^24\<close>, the largest finite value and the overflow
  threshold, and the smallest subnormal.
\<close>

lemma round32_known_values:
  "round32 (1/10) = Finite (13421773/134217728)"
  "round32 (2/10) = Finite (13421773/67108864)"
  "round32 (- (1/3)) = Finite (- (11184811/33554432))"
  "round32 16777217 = Finite 16777216"
  "round32 16777219 = Finite 16777220"
  "round32 (2^128 - 2^103 - 1) = Finite (2^128 - 2^104)"
  "round32 (2^128 - 2^103) = PInf"
  "round32 (- (2^128)) = MInf"
  "round32 (3 / 2^151) = Finite (1 / 2^149)"
  "round32 (1 / 2^150) = Finite 0"
  by (simp_all add: round32_eval)

lemma fless_irrefl [simp]: "\<not> fless a a"
  by (cases a) auto

lemma fless_NaN_right [simp]: "\<not> fless a NaN"
  by (cases a) auto

lemma fless_PInf_iff: "fless a PInf \<longleftrightarrow> a \<noteq> NaN \<and> a \<noteq> PInf"
  by (cases a) auto

lemma fless_MInf_iff: "fless MInf a \<longleftrightarrow> a \<noteq> NaN \<and> a \<noteq> MInf"
  by (cases a) auto

lemma feq_imp_not_fless: "feq a b \<Longrightarrow> \<not> fless a b"
  by (simp add: feq_def)

lemma feq_refl_iff: "feq a a \<longleftrightarrow> a \<noteq> NaN"
  by (simp add: feq_def)

lemma fsub_Finite [simp]: "fsub (Finite a) (Finite b) = round32 (a - b)"
  by (simp add: fsub_def)

lemma fmul_Finite [simp]: "fmul (Finite a) (Finite b) = round32 (a * b)"
  by (simp add: fmul_def)

lemma fdiv_Finite [simp]: "b \<noteq> 0 \<Longrightarrow> fdiv (Finite a) (Finite b) = round32 (a / b)"
  by (simp add: fdiv_def)

lemma fmin_Finite [simp]: "fmin (Finite a) (Finite b) = Finite (min a b)"
  by (auto simp: fmin_def)

lemma fmax_Finite [simp]: "fmax (Finite a) (Finite b) = Finite (max a b)"
  by (auto simp: fmax_def)

lemma fmin_PInf: "a \<noteq> NaN \<Longrightarrow> fmin PInf a = a"
  by (cases a) (auto simp: fmin_def)

lemma fmax_MInf: "a \<noteq> NaN \<Longrightarrow> fmax MInf a = a"
  by (cases a) (auto simp: fmax_def)

lemma fmin_PInf_Finite [simp]: "fmin PInf (Finite b) = Finite b"
  by (simp add: fmin_def)

lemma fmax_MInf_Finite [simp]: "fmax MInf (Finite b) = Finite b"
  by (simp add: fmax_def)

lemma fmin_Finite_PInf [simp]: "fmin (Finite a) PInf = Finite a"
  by (simp add: fmin_def)

lemma fmax_Finite_MInf [simp]: "fmax (Finite a) MInf = Finite a"
  by (simp add: fmax_def)

lemma fmin_idem [simp]: "fmin a a = a"
  by (simp add: fmin_def)

lemma fmax_idem [simp]: "fmax a a = a"
  by (simp add: fmax_def)

lemma feq_Finite [simp]: "feq (Finite a) (Finite b) \<longleftrightarrow> a = b"
  by (simp add: feq_def)

lemma fle_Finite [simp]: "fle (Finite a) (Finite b) \<longleftrightarrow> a \<le> b"
  by (auto simp: fle_def)

lemma int_of_float_Finite:
  "0 \<le> r \<Longrightarrow> r < 2 ^ 31 \<Longrightarrow> int_of_float (Finite r) = Some \<lfloor>r\<rfloor>"
  by (simp add: int_of_float_def Let_def)

lemma obind_Returns_iff:
  "obind m f = Returns b \<longleftrightarrow> (\<exists>a. m = Returns a \<and> f a = Returns b)"
  by (cases m) auto

lemma obind_weak_cong: "m = m' \<Longrightarrow> obind m f = obind m' f"
  by simp

lemma obind_assoc: "obind (obind m f) g = obind m (\<lambda>x. obind (f x) g)"
  by (cases m) auto

lemma obind_Diverges [simp]: "obind m (\<lambda>a. Diverges) = Diverges \<longleftrightarrow> (\<forall>e. m \<noteq> Fault e)"
  by (cases m) auto

section \<open>Ranges of the working array\<close>

lemma range_of_nat:
  "0 \<le> first \<Longrightarrow> first \<le> last' \<Longrightarrow>
     range_of xs first last' = take (nat last' - nat first) (drop (nat first) xs)"
  by (simp add: range_of_def nat_diff_distrib)

lemma length_range_of:
  "0 \<le> first \<Longrightarrow> first \<le> last' \<Longrightarrow> last' \<le> int (length xs) \<Longrightarrow>
     length (range_of xs first last') = nat (last' - first)"
  by (auto simp: range_of_def)

lemma split_at_range:
  assumes "f \<le> l" "l \<le> length xs"
  shows "xs = take f xs @ take (l - f) (drop f xs) @ drop l xs"
proof -
  have "drop f xs = take (l - f) (drop f xs) @ drop (l - f) (drop f xs)"
    by (simp only: append_take_drop_id)
  moreover have "drop (l - f) (drop f xs) = drop l xs"
    using assms by simp
  ultimately have "drop f xs = take (l - f) (drop f xs) @ drop l xs"
    by simp
  then have "take f xs @ drop f xs = take f xs @ take (l - f) (drop f xs) @ drop l xs"
    by simp
  then show ?thesis
    by (simp only: append_take_drop_id)
qed

lemma rearranged_refl: "rearranged xs xs f l"
  by (simp add: rearranged_def)

lemma rearranged_range_mset:
  assumes "rearranged xs' xs f l" "f \<le> l" "l \<le> length xs"
  shows "mset (take (l - f) (drop f xs')) = mset (take (l - f) (drop f xs))"
proof -
  have len: "length xs' = length xs" and ms: "mset xs' = mset xs"
    and tk: "take f xs' = take f xs" and dr: "drop l xs' = drop l xs"
    using assms(1) by (simp_all add: rearranged_def)
  have a: "xs = take f xs @ take (l - f) (drop f xs) @ drop l xs"
    using split_at_range[OF assms(2,3)] .
  have b: "xs' = take f xs @ take (l - f) (drop f xs') @ drop l xs"
    using split_at_range[of f l xs'] assms(2,3) len tk dr by simp
  have "mset (take f xs @ take (l - f) (drop f xs') @ drop l xs)
      = mset (take f xs @ take (l - f) (drop f xs) @ drop l xs)"
    using ms a b by simp
  then show ?thesis by simp
qed

lemma rearranged_trans3:
  assumes "rearranged xs1 xs f l" "rearranged xs2 xs1 f m" "rearranged xs3 xs2 m l"
    and "f \<le> m" "m \<le> l"
  shows "rearranged xs3 xs f l"
proof -
  have "take f xs3 = take f (take m xs3)" using assms(4) by (simp add: min_def)
  also have "\<dots> = take f (take m xs2)" using assms(3) by (simp add: rearranged_def)
  also have "\<dots> = take f xs2" using assms(4) by (simp add: min_def)
  also have "\<dots> = take f xs" using assms(1,2) by (simp add: rearranged_def)
  finally have t: "take f xs3 = take f xs" .
  have "drop l xs2 = drop (l - m) (drop m xs2)" using assms(5) by simp
  also have "\<dots> = drop (l - m) (drop m xs1)" using assms(2) by (simp add: rearranged_def)
  also have "\<dots> = drop l xs1" using assms(5) by simp
  finally have "drop l xs2 = drop l xs1" .
  then have d: "drop l xs3 = drop l xs" using assms(1,3) by (simp add: rearranged_def)
  show ?thesis
    using assms(1,2,3) t d by (simp add: rearranged_def)
qed

lemma rearranged_set_range:
  assumes "mset ys = mset (range_of xs first last')"
    and "0 \<le> first" "first \<le> last'" "last' \<le> int (length xs)"
  shows "rearranged (set_range xs first ys) xs (nat first) (nat last')"
    and "range_of (set_range xs first ys) first last' = ys"
proof -
  let ?f = "nat first" and ?l = "nat last'"
  have fl: "?f \<le> ?l" "?l \<le> length xs" using assms(2-4) by auto
  have "length ys = length (range_of xs first last')"
    using assms(1) by (metis size_mset)
  then have ly: "length ys = ?l - ?f"
    using length_range_of[OF assms(2-4)] assms(2,3) by (simp add: nat_diff_distrib)
  then have sr: "set_range xs first ys = take ?f xs @ ys @ drop ?l xs"
    using fl by (simp add: set_range_def)
  have x: "xs = take ?f xs @ range_of xs first last' @ drop ?l xs"
    using split_at_range[OF fl] by (simp only: range_of_nat[OF assms(2,3)])
  have "mset (take ?f xs @ ys @ drop ?l xs) = mset (take ?f xs @ range_of xs first last' @ drop ?l xs)"
    using assms(1) by simp
  then have m: "mset (set_range xs first ys) = mset xs"
    using sr x by simp
  have lt: "length (take ?f xs) = ?f" using fl by simp
  show "rearranged (set_range xs first ys) xs (nat first) (nat last')"
    unfolding rearranged_def
  proof (intro conjI)
    show "length (set_range xs first ys) = length xs"
      using m by (metis size_mset)
    show "mset (set_range xs first ys) = mset xs" by (rule m)
    show "take ?f (set_range xs first ys) = take ?f xs"
      using sr lt by simp
    show "drop ?l (set_range xs first ys) = drop ?l xs"
      using sr lt ly fl by simp
  qed
  show "range_of (set_range xs first ys) first last' = ys"
    using fl by (simp add: range_of_nat[OF assms(2,3)] sr lt ly)
qed

lemma range_of_append:
  assumes "0 \<le> first" "first \<le> mid" "mid \<le> last'"
  shows "range_of xs first last' = range_of xs first mid @ range_of xs mid last'"
proof -
  let ?f = "nat first" and ?m = "nat mid" and ?l = "nat last'"
  have fm: "?f \<le> ?m" "?m \<le> ?l" using assms by auto
  have "take (?l - ?f) (drop ?f xs) = take (?m - ?f) (drop ?f xs) @ take (?l - ?m) (drop ?m xs)"
  proof -
    have "?l - ?f = (?m - ?f) + (?l - ?m)" using fm by simp
    then have "take (?l - ?f) (drop ?f xs)
        = take (?m - ?f) (drop ?f xs) @ take (?l - ?m) (drop (?m - ?f) (drop ?f xs))"
      by (simp only: take_add)
    moreover have "drop (?m - ?f) (drop ?f xs) = drop ?m xs" using fm by simp
    ultimately show ?thesis by simp
  qed
  then show ?thesis
    using assms by (simp add: range_of_nat)
qed

lemma upt_split: "a \<le> b \<Longrightarrow> [p ..< p + a] @ [p + a ..< p + b] = [p ..< p + (b::nat)]"
  using upt_add_eq_append[of p "p + a" "b - a"] by simp

section \<open>The recursion, one level at a time\<close>

lemma BuildRecursive_Suc:
  "BuildRecursive (Suc fuel) L sm maxG geoms st first last' =
     obind (decide_range L sm maxG geoms (geomInfos st) first last')
       (\<lambda>d. case d of
          NoNode \<Rightarrow> Returns (Nullptr, st)
        | LeafHere infos b \<Rightarrow> make_leaf geoms (st\<lparr>geomInfos := infos\<rparr>) first last' b
        | SplitHere dim' mid infos \<Rightarrow>
            obind (BuildRecursive fuel L sm maxG geoms (st\<lparr>geomInfos := infos\<rparr>) first mid)
              (\<lambda>nearRes.
                 obind (BuildRecursive fuel L sm maxG geoms (snd nearRes) mid last')
                   (\<lambda>farRes.
                      Returns
                        (new_SBVHNode (fst nearRes) (fst farRes) (nodeCount (snd farRes)) dim',
                         (snd farRes)\<lparr>nodeCount := nodeCount (snd farRes) + 1\<rparr>))))"
  by (auto simp: decide_range_def Let_def obind_assoc split: split_decision.splits
        intro!: arg_cong2[where f=obind] ext)

declare BuildRecursive.simps(2) [simp del]

lemma make_leaf_Returns:
  assumes "make_leaf geoms st first last' b = Returns (node, st')"
  shows "node = SBVHLeaf (nodeCount st) (length (orderedGeoms st)) (nat (last' - first)) b"
    and "nodeCount st' = nodeCount st + 1"
    and "geomInfos st' = geomInfos st"
    and "orderedGeoms st' =
           orderedGeoms st @ map (\<lambda>i. geoms ! i) (map geometryId (range_of (geomInfos st) first last'))"
  using assms by (auto simp: make_leaf_def Let_def split: if_splits)

section \<open>Equal counts: every range is built and covered\<close>

lemma decide_range_EqualCounts:
  assumes "0 \<le> first" "first \<le> last'" "last' \<le> int (length infos)"
  shows "decide_range L EqualCounts maxG geoms infos first last' =
     (if last' - first = 1
         \<or> feq (vidx (m_max (centroid_bbox_of_range (range_of infos first last')))
                  (BBoxMaximumExtent (centroid_bbox_of_range (range_of infos first last'))))
               (vidx (m_min (centroid_bbox_of_range (range_of infos first last')))
                  (BBoxMaximumExtent (centroid_bbox_of_range (range_of infos first last'))))
      then Returns (LeafHere infos (bbox_of_range (range_of infos first last')))
      else Returns (SplitHere (BBoxMaximumExtent (centroid_bbox_of_range (range_of infos first last')))
             ((first + last') div 2)
             (set_range infos first
                (std_nth_element L
                   (CompareCentroid (BBoxMaximumExtent (centroid_bbox_of_range (range_of infos first last'))))
                   (nat ((first + last') div 2 - first)) (range_of infos first last')))))"
  using assms by (auto simp: decide_range_def choose_split_def PartitionEqualCounts_def Let_def)

lemma decide_range_small:
  "last' - first \<le> 4 \<Longrightarrow>
     decide_range L sm maxG geoms infos first last'
       = decide_range L EqualCounts maxG geoms infos first last'"
  by (cases sm) (auto simp: decide_range_def choose_split_def Let_def)

lemma make_leaf_valid:
  assumes "\<forall>gi \<in> set (range_of (geomInfos st) first last'). geometryId gi < length geoms"
  shows "make_leaf geoms st first last' b =
     Returns (SBVHLeaf (nodeCount st) (length (orderedGeoms st)) (nat (last' - first)) b,
              st\<lparr>orderedGeoms := orderedGeoms st @ map (\<lambda>i. geoms ! i)
                                    (map geometryId (range_of (geomInfos st) first last')),
                 nodeCount := nodeCount st + 1\<rparr>)"
  using assms by (auto simp: make_leaf_def Let_def list_all_iff)

lemma EqualCounts_builds_range:
  assumes ok: "nth_element_ok (std_nth_element L)"
  shows "0 \<le> first \<Longrightarrow> first < last' \<Longrightarrow> last' \<le> int (length (geomInfos st)) \<Longrightarrow>
     nat (last' - first) \<le> fuel \<Longrightarrow>
     \<forall>gi \<in> set (range_of (geomInfos st) first last'). geometryId gi < length geoms \<Longrightarrow>
     \<exists>node st'. BuildRecursive fuel L EqualCounts maxG geoms st first last' = Returns (node, st')
        \<and> covers_range geoms st first last' node st'"
proof (induction fuel arbitrary: st first last')
  case 0
  then show ?case by simp
next
  case (Suc fuel)
  let ?infos = "geomInfos st"
  let ?rng = "range_of ?infos first last'"
  let ?o = "length (orderedGeoms st)"
  have b0: "0 \<le> first" "first \<le> last'" "last' \<le> int (length ?infos)"
    using Suc.prems by simp_all
  have lenr: "length ?rng = nat (last' - first)"
    using length_range_of[OF b0] .
  note dec = decide_range_EqualCounts[OF b0, of L maxG geoms]
  show ?case
  proof (cases "last' - first = 1
         \<or> feq (vidx (m_max (centroid_bbox_of_range ?rng)) (BBoxMaximumExtent (centroid_bbox_of_range ?rng)))
               (vidx (m_min (centroid_bbox_of_range ?rng)) (BBoxMaximumExtent (centroid_bbox_of_range ?rng)))")
    case True
    then have d: "decide_range L EqualCounts maxG geoms ?infos first last'
        = Returns (LeafHere ?infos (bbox_of_range ?rng))"
      using dec by simp
    have "BuildRecursive (Suc fuel) L EqualCounts maxG geoms st first last'
       = make_leaf geoms st first last' (bbox_of_range ?rng)"
      by (simp add: BuildRecursive_Suc d)
    then have r: "BuildRecursive (Suc fuel) L EqualCounts maxG geoms st first last'
       = Returns (SBVHLeaf (nodeCount st) ?o (nat (last' - first)) (bbox_of_range ?rng),
              st\<lparr>orderedGeoms := orderedGeoms st @ map (\<lambda>i. geoms ! i) (map geometryId ?rng),
                 nodeCount := nodeCount st + 1\<rparr>)"
      using make_leaf_valid[OF Suc.prems(5)] by simp
    have "covers_range geoms st first last'
            (SBVHLeaf (nodeCount st) ?o (nat (last' - first)) (bbox_of_range ?rng))
            (st\<lparr>orderedGeoms := orderedGeoms st @ map (\<lambda>i. geoms ! i) (map geometryId ?rng),
                 nodeCount := nodeCount st + 1\<rparr>)"
      unfolding covers_range_def
      by (simp add: rearranged_refl) (rule exI[of _ "map geometryId ?rng"], simp)
    with r show ?thesis by blast
  next
    case False
    define dm where "dm = BBoxMaximumExtent (centroid_bbox_of_range ?rng)"
    define mid where "mid = (first + last') div 2"
    define ys where "ys = std_nth_element L (CompareCentroid dm) (nat (mid - first)) ?rng"
    define infos1 where "infos1 = set_range ?infos first ys"
    have d: "decide_range L EqualCounts maxG geoms ?infos first last'
        = Returns (SplitHere dm mid infos1)"
      using dec False by (simp add: dm_def mid_def ys_def infos1_def)
    have n2: "2 \<le> last' - first" using False Suc.prems(2) by auto
    have midb: "first < mid" "mid < last'" using n2 by (auto simp: mid_def)
    have msys: "mset ys = mset ?rng"
      using ok by (simp add: ys_def nth_element_ok_def)
    have re1: "rearranged infos1 ?infos (nat first) (nat last')"
      and r1: "range_of infos1 first last' = ys"
      using rearranged_set_range[OF msys b0] by (simp_all add: infos1_def)
    have len1: "length infos1 = length ?infos" using re1 by (simp add: rearranged_def)
    have setys: "set ys = set ?rng" using msys by (metis set_mset_mset)
    have app1: "ys = range_of infos1 first mid @ range_of infos1 mid last'"
      using range_of_append[of first mid last' infos1] b0 midb r1 by simp
    have "set ys = set (range_of infos1 first mid @ range_of infos1 mid last')"
      using app1 by simp
    then have sub1: "set (range_of infos1 first mid) \<subseteq> set ?rng"
      and sub2: "set (range_of infos1 mid last') \<subseteq> set ?rng"
      using setys by auto
    let ?st1 = "st\<lparr>geomInfos := infos1\<rparr>"
    have "\<exists>node st'. BuildRecursive fuel L EqualCounts maxG geoms ?st1 first mid = Returns (node, st')
        \<and> covers_range geoms ?st1 first mid node st'"
    proof (rule Suc.IH)
      show "0 \<le> first" by fact
      show "first < mid" by fact
      show "mid \<le> int (length (geomInfos ?st1))" using midb b0 len1 by simp
      show "nat (mid - first) \<le> fuel" using Suc.prems(4) midb by linarith
      show "\<forall>gi\<in>set (range_of (geomInfos ?st1) first mid). geometryId gi < length geoms"
        using Suc.prems(5) sub1 by auto
    qed
    then obtain nearC st2 where
      nr: "BuildRecursive fuel L EqualCounts maxG geoms ?st1 first mid = Returns (nearC, st2)"
      and nc: "covers_range geoms ?st1 first mid nearC st2" by blast
    from nc have re2: "rearranged (geomInfos st2) infos1 (nat first) (nat mid)"
      and lp1: "leaf_positions nearC = [?o ..< ?o + nat (mid - first)]"
      and nn1: "nearC \<noteq> Nullptr" "no_null_child nearC"
      by (simp_all add: covers_range_def)
    from nc obtain ids1 where og2: "orderedGeoms st2 = orderedGeoms st @ map (\<lambda>i. geoms ! i) ids1"
      and mi1: "mset ids1 = mset (map geometryId (range_of infos1 first mid))"
      by (auto simp: covers_range_def)
    have len2: "length (geomInfos st2) = length infos1"
      and dr2: "drop (nat mid) (geomInfos st2) = drop (nat mid) infos1"
      using re2 by (simp_all add: rearranged_def)
    have r2: "range_of (geomInfos st2) mid last' = range_of infos1 mid last'"
      using dr2 by (simp add: range_of_def)
    have "\<exists>node st'. BuildRecursive fuel L EqualCounts maxG geoms st2 mid last' = Returns (node, st')
        \<and> covers_range geoms st2 mid last' node st'"
    proof (rule Suc.IH)
      show "0 \<le> mid" using midb b0 by simp
      show "mid < last'" by fact
      show "last' \<le> int (length (geomInfos st2))" using b0 len1 len2 by simp
      show "nat (last' - mid) \<le> fuel" using Suc.prems(4) midb by linarith
      show "\<forall>gi\<in>set (range_of (geomInfos st2) mid last'). geometryId gi < length geoms"
        using Suc.prems(5) sub2 r2 by auto
    qed
    then obtain farC st3 where
      fr: "BuildRecursive fuel L EqualCounts maxG geoms st2 mid last' = Returns (farC, st3)"
      and fc: "covers_range geoms st2 mid last' farC st3" by blast
    from fc have re3: "rearranged (geomInfos st3) (geomInfos st2) (nat mid) (nat last')"
      and lp2: "leaf_positions farC
           = [length (orderedGeoms st2) ..< length (orderedGeoms st2) + nat (last' - mid)]"
      and nn2: "farC \<noteq> Nullptr" "no_null_child farC"
      by (simp_all add: covers_range_def)
    from fc obtain ids2 where og3: "orderedGeoms st3 = orderedGeoms st2 @ map (\<lambda>i. geoms ! i) ids2"
      and mi2: "mset ids2 = mset (map geometryId (range_of infos1 mid last'))"
      by (auto simp: covers_range_def r2)
    have res: "BuildRecursive (Suc fuel) L EqualCounts maxG geoms st first last'
       = Returns (new_SBVHNode nearC farC (nodeCount st3) dm,
                  st3\<lparr>nodeCount := nodeCount st3 + 1\<rparr>)"
      by (simp add: BuildRecursive_Suc d nr fr)
    have "length ids1 = length (range_of infos1 first mid)"
      using mi1 by (metis length_map size_mset)
    then have l1: "length ids1 = nat (mid - first)"
      using length_range_of[of first mid infos1] b0 midb len1 by simp
    have re: "rearranged (geomInfos st3) ?infos (nat first) (nat last')"
      using rearranged_trans3[OF re1 re2 re3] midb b0 by simp
    have "mset (ids1 @ ids2) = mset (map geometryId (range_of infos1 first mid @ range_of infos1 mid last'))"
      using mi1 mi2 by simp
    also have "\<dots> = mset (map geometryId ys)" using app1 by simp
    also have "\<dots> = mset (map geometryId ?rng)" using msys by (metis mset_map)
    finally have mi: "mset (ids1 @ ids2) = mset (map geometryId ?rng)" .
    have og: "orderedGeoms st3 = orderedGeoms st @ map (\<lambda>i. geoms ! i) (ids1 @ ids2)"
      using og2 og3 by simp
    have "nat (mid - first) + nat (last' - mid) = nat (last' - first)"
      using midb by linarith
    then have lp: "leaf_positions (new_SBVHNode nearC farC (nodeCount st3) dm)
        = [?o ..< ?o + nat (last' - first)]"
      using lp1 lp2 og2 l1 upt_split[of "nat (mid - first)" "nat (last' - first)" ?o]
      by (simp add: new_SBVHNode_def add.assoc)
    have ex: "\<exists>ids. orderedGeoms st3 = orderedGeoms st @ map (\<lambda>i. geoms ! i) ids
             \<and> mset ids = mset (map geometryId ?rng)"
      using mi og by blast
    have "covers_range geoms st first last' (new_SBVHNode nearC farC (nodeCount st3) dm)
            (st3\<lparr>nodeCount := nodeCount st3 + 1\<rparr>)"
      unfolding covers_range_def
      using re ex lp nn1 nn2 by (simp add: new_SBVHNode_def)
    with res show ?thesis by blast
  qed
qed

section \<open>More recursion depth changes no result\<close>

lemma BuildRecursive_Suc_mono:
  "BuildRecursive fuel L sm maxG geoms st first last' = Returns r \<Longrightarrow>
     BuildRecursive (Suc fuel) L sm maxG geoms st first last' = Returns r"
proof (induction fuel arbitrary: st first last' r)
  case 0
  then show ?case by simp
next
  case (Suc fuel)
  from Suc.prems obtain d where
    d: "decide_range L sm maxG geoms (geomInfos st) first last' = Returns d"
    by (auto simp: BuildRecursive_Suc obind_Returns_iff)
  show ?case
  proof (cases d)
    case NoNode
    with Suc.prems d show ?thesis by (simp add: BuildRecursive_Suc)
  next
    case (LeafHere infos b)
    with Suc.prems d show ?thesis by (simp add: BuildRecursive_Suc)
  next
    case (SplitHere dim' mid infos)
    with Suc.prems d obtain nr fr where
      n: "BuildRecursive fuel L sm maxG geoms (st\<lparr>geomInfos := infos\<rparr>) first mid = Returns nr"
      and f: "BuildRecursive fuel L sm maxG geoms (snd nr) mid last' = Returns fr"
      and r: "r = (new_SBVHNode (fst nr) (fst fr) (nodeCount (snd fr)) dim',
                   (snd fr)\<lparr>nodeCount := nodeCount (snd fr) + 1\<rparr>)"
      by (auto simp: BuildRecursive_Suc obind_Returns_iff)
    show ?thesis
      using Suc.IH[OF n] Suc.IH[OF f] d SplitHere r
      by (simp add: BuildRecursive_Suc[of "Suc fuel"])
  qed
qed

lemma BuildRecursive_mono:
  "BuildRecursive fuel L sm maxG geoms st first last' = Returns r \<Longrightarrow> fuel \<le> fuel' \<Longrightarrow>
     BuildRecursive fuel' L sm maxG geoms st first last' = Returns r"
  by (induction fuel' ) (auto simp: le_Suc_eq BuildRecursive_Suc_mono)

lemma Build_mono:
  "Build fuel L sbvh geoms = Returns s \<Longrightarrow> fuel \<le> fuel' \<Longrightarrow> Build fuel' L sbvh geoms = Returns s"
  by (auto simp: Build_def obind_Returns_iff dest: BuildRecursive_mono)

lemma geometryId_initial_infos: "map geometryId (initial_infos geoms) = [0..<length geoms]"
  by (simp add: initial_infos_def comp_def)

lemma length_initial_infos [simp]: "length (initial_infos geoms) = length geoms"
  by (simp add: initial_infos_def)

lemma range_of_all: "range_of xs 0 (int (length xs)) = xs"
  by (simp add: range_of_def)

section \<open>Ranges of at most four primitives\<close>

lemma choose_split_small:
  "last' - first \<le> 4 \<Longrightarrow>
     choose_split L sm maxG geoms bboxAllGeoms bboxCentroids dim' first last' infos
       = Returns (SplitAt ((first + last') div 2),
                  snd (PartitionEqualCounts L dim' first last' infos))"
  by (cases sm) (simp_all add: choose_split_def PartitionEqualCounts_def Let_def)

lemma decide_range_SplitHere_EqualCounts:
  assumes "decide_range L EqualCounts maxG geoms infos first last' = Returns (SplitHere dim' mid infos')"
  shows "0 \<le> first \<and> first \<le> last' \<and> mid = (first + last') div 2"
  using assms
  by (auto simp: decide_range_def choose_split_def PartitionEqualCounts_def Let_def
        split: if_splits)

lemma BuildRecursive_small:
  "last' - first \<le> 4 \<Longrightarrow>
     BuildRecursive fuel L sm maxG geoms st first last'
       = BuildRecursive fuel L EqualCounts maxG geoms st first last'"
proof (induction fuel arbitrary: st first last')
  case 0
  show ?case by simp
next
  case (Suc fuel)
  note ds = decide_range_small[OF Suc.prems, of L sm maxG geoms "geomInfos st"]
  show ?case
  proof (cases "decide_range L EqualCounts maxG geoms (geomInfos st) first last'")
    case Diverges
    then show ?thesis by (simp add: BuildRecursive_Suc ds)
  next
    case (Fault e)
    then show ?thesis by (simp add: BuildRecursive_Suc ds)
  next
    case (Returns d)
    show ?thesis
    proof (cases d)
      case NoNode
      with Returns show ?thesis by (simp add: BuildRecursive_Suc ds)
    next
      case (LeafHere infos b)
      with Returns show ?thesis by (simp add: BuildRecursive_Suc ds)
    next
      case (SplitHere dim' mid infos)
      with Returns decide_range_SplitHere_EqualCounts
      have "0 \<le> first \<and> first \<le> last' \<and> mid = (first + last') div 2" by blast
      then have s: "mid - first \<le> 4" "last' - mid \<le> 4"
        using Suc.prems by auto
      show ?thesis
        using Returns SplitHere
        by (simp add: BuildRecursive_Suc ds Suc.IH[OF s(1)] Suc.IH[OF s(2)])
    qed
  qed
qed

lemma decide_range_small_split:
  assumes "2 \<le> last' - first" "last' - first \<le> 4" "0 \<le> first"
    "last' \<le> int (length infos)"
    and "\<not> feq (vidx (m_max (centroid_bbox_of_range (range_of infos first last')))
                 (BBoxMaximumExtent (centroid_bbox_of_range (range_of infos first last'))))
               (vidx (m_min (centroid_bbox_of_range (range_of infos first last')))
                 (BBoxMaximumExtent (centroid_bbox_of_range (range_of infos first last'))))"
  shows "decide_range L sm maxG geoms infos first last' =
     Returns (SplitHere (BBoxMaximumExtent (centroid_bbox_of_range (range_of infos first last')))
        ((first + last') div 2)
        (snd (PartitionEqualCounts L
                (BBoxMaximumExtent (centroid_bbox_of_range (range_of infos first last')))
                first last' infos)))"
  using assms by (simp add: decide_range_def Let_def choose_split_small)

section \<open>The SAH decision\<close>



section \<open>Evaluation on concrete scenes\<close>

lemmas scene_defs =
  P3_def hit_at_def triangle_geom_def box_geom_def new_SBVH_def

lemmas bbox_defs =
  Centroid_def BBox_empty_def BBox_of_corners_def BBoxUnion_def BBoxUnionPoint_def
  BBoxOverlap_def BBoxFromPoints_def extent_def GetSurfaceArea_def BBoxMaximumExtent_def
  Offset_def vsub_def round32_eval

lemma new_buckets_unfold:
  "new_buckets =
     [empty_bucket, empty_bucket, empty_bucket, empty_bucket, empty_bucket, empty_bucket,
      empty_bucket, empty_bucket, empty_bucket, empty_bucket, empty_bucket, empty_bucket]"
  by (simp add: new_buckets_def NUM_BUCKET_def numeral_eq_Suc)

lemmas sah_defs =
  NUM_BUCKET_def COST_TRAVERSAL_def COST_INTERSECTION_def RESTRICT_ALPHA_def
  whichBucket_of_def bucket_slot_def centroid_slot_def add_to_bucket_def fill_buckets_def
  boxes_union_def split_cost_def bbox0_of_def bbox1_of_def count0_of_def count1_of_def
  object_cost_def sah_costs_def min_cost_step_def min_cost_def in_low_side_def
  lambda_check_def partition_by_bucket_def float_of_int_def int_of_float_def

lemmas build_defs =
  Build_def initial_infos_def BuildRecursive.simps(2) range_of_def set_range_def
  bbox_of_range_def centroid_bbox_of_range_def make_leaf_def choose_split_def
  PartitionEqualCounts_def CompareCentroid_def new_SBVHNode_def
  ref_stl_def ref_nth_element_def ref_partition_def ref_remove_if_def

lemma mset_insert_by: "mset (insert_by cmp x ys) = add_mset x (mset ys)"
  by (induction ys) auto

lemma ref_nth_element_ok: "nth_element_ok ref_nth_element"
proof -
  have "mset (foldr (insert_by cmp) xs []) = mset xs" for cmp and xs :: "'a list"
    by (induction xs) (auto simp: mset_insert_by)
  then show ?thesis
    by (simp add: nth_element_ok_def ref_nth_element_def)
qed

lemma ref_partition_ok: "partition_ok ref_partition"
  by (auto simp: partition_ok_def ref_partition_def list_all_iff)

lemma ref_remove_if_ok: "remove_if_ok ref_remove_if"
proof -
  have "length (filter (\<lambda>x. \<not> P x) xs) \<le> length xs" for P and xs :: "'a list"
    by simp
  then show ?thesis
    by (simp add: remove_if_ok_def ref_remove_if_def)
qed

lemma ref_stl_ok: "stl_ok ref_stl"
  by (simp add: stl_ok_def ref_stl_def ref_nth_element_ok ref_partition_ok ref_remove_if_ok)

lemma three_boxes_equal_counts:
  "\<exists>sbvh'. Build 3 ref_stl (new_SBVH EqualCounts 8) three_boxes = Returns sbvh'
      \<and> is_interior (m_root sbvh')
      \<and> map (\<lambda>g. isx_data (geom_GetIntersection g ())) (m_geoms sbvh') = [1, 2, 0]"
  by (simp add: three_boxes_def scene_defs build_defs bbox_defs numeral_3_eq_3 upt_rec Let_def)

section \<open>The search for the split\<close>

lemmas spatial_defs =
  spatial_step_def SAChildrenOverlap_def spatial_cost_def select_candidate_def
  restriction_met_def search_step_def find_split_def split_search_init_def

section \<open>The empty scene\<close>

lemma BBoxMaximumExtent_empty: "BBoxMaximumExtent BBox_empty = Z"
  by (simp add: BBoxMaximumExtent_def extent_def BBox_empty_def fsub_def)

lemma decide_range_empty:
  "\<exists>infos'. decide_range L sm maxG geoms infos 0 0 = Returns (SplitHere Z 0 infos')"
  by (cases sm)
     (simp_all add: decide_range_def range_of_def bbox_of_range_def centroid_bbox_of_range_def
        BBoxMaximumExtent_empty choose_split_def PartitionEqualCounts_def Let_def,
      simp_all add: BBox_empty_def feq_def)

lemma BuildRecursive_empty_range:
  "BuildRecursive fuel L sm maxG geoms st 0 0 = Diverges"
proof (induction fuel arbitrary: st)
  case 0
  show ?case by simp
next
  case (Suc fuel)
  obtain infos' where
    d: "decide_range L sm maxG geoms (geomInfos st) 0 0 = Returns (SplitHere Z 0 infos')"
    using decide_range_empty by blast
  show ?case
    by (simp add: BuildRecursive_Suc d Suc.IH)
qed

text \<open>
  C5.  With no primitives, \<^verbatim>\<open>Build\<close> calls \<^verbatim>\<open>BuildRecursive\<close> on the range
  \<open>[0, 0)\<close>.  The guard \<^verbatim>\<open>last < first\<close> lets the empty range pass, the box of no
  centroids has no axis of equal bounds, every strategy splits a range of at most
  four primitives at its midpoint, which is 0, and the near child is built for the
  range \<open>[0, 0)\<close> again: whatever the bound on the depth of the recursion, the call
  does not return, for every strategy and every implementation of the library
  algorithms.  No structure is produced that could be queried.
\<close>

theorem Build_empty_scene_diverges: "Build fuel L sbvh [] = Diverges"
  by (simp add: Build_def BuildRecursive_empty_range)

section \<open>Build indices\<close>

lemma indices_within_mono:
  "indices_within lo hi n \<Longrightarrow> lo' \<le> lo \<Longrightarrow> hi \<le> hi' \<Longrightarrow> indices_within lo' hi' n"
  by (induction n) auto

lemma indices_within_child_below:
  "indices_within lo hi n \<Longrightarrow> hi \<le> i \<Longrightarrow> child_below i n"
  by (cases n) auto

lemma BuildRecursive_indices:
  "BuildRecursive fuel L sm maxG geoms st first last' = Returns (node, st') \<Longrightarrow>
     nodeCount st \<le> nodeCount st' \<and> indices_within (nodeCount st) (nodeCount st') node
     \<and> index_above_children node"
proof (induction fuel arbitrary: st first last' node st')
  case 0
  then show ?case by simp
next
  case (Suc fuel)
  from Suc.prems obtain d where "(case d of
          NoNode \<Rightarrow> Returns (Nullptr, st)
        | LeafHere infos b \<Rightarrow> make_leaf geoms (st\<lparr>geomInfos := infos\<rparr>) first last' b
        | SplitHere dim' mid infos \<Rightarrow>
            obind (BuildRecursive fuel L sm maxG geoms (st\<lparr>geomInfos := infos\<rparr>) first mid)
              (\<lambda>nearRes.
                 obind (BuildRecursive fuel L sm maxG geoms (snd nearRes) mid last')
                   (\<lambda>farRes.
                      Returns
                        (new_SBVHNode (fst nearRes) (fst farRes) (nodeCount (snd farRes)) dim',
                         (snd farRes)\<lparr>nodeCount := nodeCount (snd farRes) + 1\<rparr>))))
       = Returns (node, st')" (is "?rest d = _")
    by (auto simp: BuildRecursive_Suc obind_Returns_iff)
  note rest = this
  show ?case
  proof (cases d)
    case NoNode
    with rest show ?thesis by simp
  next
    case (LeafHere infos b)
    with rest have "make_leaf geoms (st\<lparr>geomInfos := infos\<rparr>) first last' b = Returns (node, st')"
      by simp
    from make_leaf_Returns(1,2)[OF this] show ?thesis by simp
  next
    case (SplitHere dim' mid infos)
    with rest obtain nearC st1 farC st2 where
      n: "BuildRecursive fuel L sm maxG geoms (st\<lparr>geomInfos := infos\<rparr>) first mid
            = Returns (nearC, st1)"
      and f: "BuildRecursive fuel L sm maxG geoms st1 mid last' = Returns (farC, st2)"
      and node: "node = new_SBVHNode nearC farC (nodeCount st2) dim'"
      and st': "st' = st2\<lparr>nodeCount := nodeCount st2 + 1\<rparr>"
      by (auto simp: obind_Returns_iff)
    from Suc.IH[OF n] have n1: "nodeCount st \<le> nodeCount st1"
      "indices_within (nodeCount st) (nodeCount st1) nearC" "index_above_children nearC"
      by simp_all
    from Suc.IH[OF f] have f1: "nodeCount st1 \<le> nodeCount st2"
      "indices_within (nodeCount st1) (nodeCount st2) farC" "index_above_children farC"
      by simp_all
    have "child_below (nodeCount st2) nearC"
      using indices_within_child_below[OF n1(2)] f1(1) by simp
    moreover have "child_below (nodeCount st2) farC"
      using indices_within_child_below[OF f1(2)] by simp
    moreover have "indices_within (nodeCount st) (nodeCount st2 + 1) nearC"
      using indices_within_mono[OF n1(2)] f1(1) by simp
    moreover have "indices_within (nodeCount st) (nodeCount st2 + 1) farC"
      using indices_within_mono[OF f1(2)] n1(1) by simp
    ultimately show ?thesis
      using n1 f1 by (simp add: node st' new_SBVHNode_def)
  qed
qed

text \<open>
  C8.  In every tree that \<^verbatim>\<open>Build\<close> returns, for every split strategy and every
  implementation of the library algorithms, the build index of every interior node
  is strictly greater than the build indices of both of its children: a node takes
  the value of the shared counter after both of its subtrees have been numbered.
\<close>

theorem build_index_above_children:
  assumes "Build fuel L sbvh geoms = Returns sbvh'"
  shows "index_above_children (m_root sbvh')"
  using assms BuildRecursive_indices
  by (fastforce simp: Build_def obind_Returns_iff)

theorem build_index_above_children_witness:
  "\<exists>sbvh'. Build 3 ref_stl (new_SBVH EqualCounts 8) three_boxes = Returns sbvh'
     \<and> is_interior (m_root sbvh') \<and> index_above_children (m_root sbvh')"
proof -
  obtain sbvh' where r: "Build 3 ref_stl (new_SBVH EqualCounts 8) three_boxes = Returns sbvh'"
    and i: "is_interior (m_root sbvh')"
    using three_boxes_equal_counts by blast
  from build_index_above_children[OF r] r i show ?thesis by blast
qed

section \<open>Equal counts: the reordered primitives\<close>

text \<open>
  C10.  Under the EqualCounts strategy, for every scene with at least one primitive
  and every conforming \<^verbatim>\<open>std::nth_element\<close>, \<^verbatim>\<open>Build\<close> returns (a recursion
  depth of the number of primitives is enough, and the result is the same for every
  depth at which it returns), the reordered primitive array is the input list
  rearranged by a permutation \<open>ids\<close> of the input indices, so that every input
  primitive occurs exactly once, and the spans of the leaves, taken from the nearest
  to the farthest leaf, are exactly the positions \<open>0, 1, \<dots>\<close> of that array, each
  position in one span.  (With no primitive at all \<^verbatim>\<open>Build\<close> does not return,
  see C5.)
\<close>

theorem EqualCounts_reordering_is_permutation:
  assumes "nth_element_ok (std_nth_element L)" and "m_splitMethod sbvh = EqualCounts"
    and "geoms \<noteq> []"
  shows "\<exists>sbvh' ids.
           Build (length geoms) L sbvh geoms = Returns sbvh'
         \<and> (\<forall>fuel s. Build fuel L sbvh geoms = Returns s \<longrightarrow> s = sbvh')
         \<and> mset ids = mset [0..<length geoms]
         \<and> m_geoms sbvh' = map (\<lambda>i. geoms ! i) ids
         \<and> leaf_positions (m_root sbvh') = [0..<length geoms]"
proof -
  let ?st = "\<lparr>geomInfos = initial_infos geoms, nodeCount = 0, orderedGeoms = []\<rparr>
               :: ('a, 'b) build_state"
  let ?n = "int (length geoms)"
  have valid: "\<forall>gi \<in> set (range_of (geomInfos ?st) 0 ?n). geometryId gi < length geoms"
    using range_of_all[of "initial_infos geoms"] by (auto simp: initial_infos_def)
  obtain node st' where
    r: "BuildRecursive (length geoms) L EqualCounts (m_maxGeomsInNode sbvh) geoms ?st 0 ?n
          = Returns (node, st')"
    and c: "covers_range geoms ?st 0 ?n node st'"
    using EqualCounts_builds_range[OF assms(1), of 0 ?n ?st "length geoms" geoms "m_maxGeomsInNode sbvh"]
      valid assms(3) by auto
  from c obtain ids where og: "orderedGeoms st' = map (\<lambda>i. geoms ! i) ids"
    and mi: "mset ids = mset (map geometryId (range_of (initial_infos geoms) 0 ?n))"
    and lp: "leaf_positions node = [0..<length geoms]"
    by (auto simp: covers_range_def)
  let ?s = "sbvh\<lparr>m_geoms := orderedGeoms st', m_root := node,
                 m_nodes := m_nodes sbvh @ FlattenRecursive node\<rparr>"
  have b: "Build (length geoms) L sbvh geoms = Returns ?s"
    using r assms(2) by (simp add: Build_def)
  have u: "s = ?s" if "Build fuel L sbvh geoms = Returns s" for fuel s
  proof -
    have "Build (max fuel (length geoms)) L sbvh geoms = Returns s"
      using Build_mono[OF that] by simp
    moreover have "Build (max fuel (length geoms)) L sbvh geoms = Returns ?s"
      using Build_mono[OF b] by simp
    ultimately show ?thesis by simp
  qed
  have "map geometryId (range_of (initial_infos geoms) 0 ?n) = [0..<length geoms]"
    using range_of_all[of "initial_infos geoms"] geometryId_initial_infos[of geoms] by simp
  then have m: "mset ids = mset [0..<length geoms]"
    using mi by (simp only:)
  have u': "\<forall>fuel s. Build fuel L sbvh geoms = Returns s \<longrightarrow> s = ?s"
    using u by blast
  have g: "m_geoms ?s = map (\<lambda>i. geoms ! i) ids" using og by simp
  have l: "leaf_positions (m_root ?s) = [0..<length geoms]" using lp by simp
  from b u' m g l show ?thesis by blast
qed

theorem EqualCounts_reordering_is_permutation_witness:
  "nth_element_ok (std_nth_element ref_stl)
   \<and> m_splitMethod (new_SBVH EqualCounts 8) = EqualCounts \<and> three_boxes \<noteq> []
   \<and> (\<exists>sbvh' ids.
         Build 3 ref_stl (new_SBVH EqualCounts 8) three_boxes = Returns sbvh'
       \<and> mset ids = mset [0..<3]
       \<and> m_geoms sbvh' = map (\<lambda>i. three_boxes ! i) ids
       \<and> leaf_positions (m_root sbvh') = [0..<3])"
proof -
  have a: "nth_element_ok (std_nth_element ref_stl)"
    by (simp add: ref_stl_def ref_nth_element_ok)
  have b: "m_splitMethod (new_SBVH EqualCounts 8) = EqualCounts"
    by (simp add: new_SBVH_def)
  have c: "three_boxes \<noteq> []" and l: "length three_boxes = 3"
    by (simp_all add: three_boxes_def)
  from EqualCounts_reordering_is_permutation[OF a b c] a b c l show ?thesis
    by auto
qed

section \<open>Ranges of two to four primitives under the SAH strategies\<close>

text \<open>
  C9.  For a range of two to four primitives whose centroids differ along the chosen
  axis, under SAH and under SpatialSplit_SAH: the \<^verbatim>\<open>switch\<close> evaluates no cost and
  splits the range by \<^verbatim>\<open>PartitionEqualCounts\<close> at the midpoint index; the whole
  call is the call under EqualCounts (the sub-ranges are as small); whenever the call
  returns, it returns an interior node, never a leaf; and it does return, given a
  conforming \<^verbatim>\<open>std::nth_element\<close>, valid geometry ids and a recursion depth of four.
\<close>

theorem small_ranges_split_at_midpoint:
  fixes st :: "('r, 'h) build_state" and first last' :: int
  defines "rng \<equiv> range_of (geomInfos st) first last'"
  defines "bc \<equiv> centroid_bbox_of_range rng"
  defines "dm \<equiv> BBoxMaximumExtent bc"
  assumes sm: "sm = SAH \<or> sm = SpatialSplit_SAH"
    and n: "2 \<le> last' - first" "last' - first \<le> 4"
    and b: "0 \<le> first" "last' \<le> int (length (geomInfos st))"
    and nd: "\<not> feq (vidx (m_max bc) dm) (vidx (m_min bc) dm)"
  shows "choose_split L sm maxG geoms (bbox_of_range rng) bc dm first last' (geomInfos st)
           = Returns (SplitAt ((first + last') div 2),
                      snd (PartitionEqualCounts L dm first last' (geomInfos st)))
       \<and> BuildRecursive fuel L sm maxG geoms st first last'
           = BuildRecursive fuel L EqualCounts maxG geoms st first last'
       \<and> (\<forall>node st'. BuildRecursive fuel L sm maxG geoms st first last' = Returns (node, st')
             \<longrightarrow> is_interior node)
       \<and> (nth_element_ok (std_nth_element L)
            \<and> (\<forall>gi \<in> set rng. geometryId gi < length geoms) \<and> 4 \<le> fuel
           \<longrightarrow> (\<exists>node st'. BuildRecursive fuel L sm maxG geoms st first last'
                                = Returns (node, st')))"
proof (intro conjI allI impI)
  show "choose_split L sm maxG geoms (bbox_of_range rng) bc dm first last' (geomInfos st)
           = Returns (SplitAt ((first + last') div 2),
                      snd (PartitionEqualCounts L dm first last' (geomInfos st)))"
    using n(2) by (rule choose_split_small)
  show eq: "BuildRecursive fuel L sm maxG geoms st first last'
           = BuildRecursive fuel L EqualCounts maxG geoms st first last'"
    using n(2) by (rule BuildRecursive_small)
  show "is_interior node"
    if "BuildRecursive fuel L sm maxG geoms st first last' = Returns (node, st')" for node st'
  proof (cases fuel)
    case 0
    with that show ?thesis by simp
  next
    case (Suc k)
    have d: "decide_range L sm maxG geoms (geomInfos st) first last' =
       Returns (SplitHere dm ((first + last') div 2)
                  (snd (PartitionEqualCounts L dm first last' (geomInfos st))))"
      using decide_range_small_split[OF n b] nd by (simp add: rng_def bc_def dm_def)
    from that show ?thesis
      unfolding Suc BuildRecursive_Suc d
      by (auto simp: obind_Returns_iff new_SBVHNode_def)
  qed
  show "\<exists>node st'. BuildRecursive fuel L sm maxG geoms st first last' = Returns (node, st')"
    if "nth_element_ok (std_nth_element L)
            \<and> (\<forall>gi \<in> set rng. geometryId gi < length geoms) \<and> 4 \<le> fuel"
  proof -
    have "nat (last' - first) \<le> fuel" using that n by linarith
    then have "\<exists>node st'. BuildRecursive fuel L EqualCounts maxG geoms st first last' = Returns (node, st')
        \<and> covers_range geoms st first last' node st'"
      using EqualCounts_builds_range[of L first last' st fuel geoms maxG] that n b
      by (simp add: rng_def)
    then show ?thesis using eq by auto
  qed
qed

lemma three_boxes_infos:
  "initial_infos three_boxes =
     [\<lparr>geometryId = 0, bbox = BBox_of_corners (P3 4 0 0) (P3 5 1 1), straddling = False\<rparr>,
      \<lparr>geometryId = 1, bbox = BBox_of_corners (P3 0 0 0) (P3 1 1 1), straddling = False\<rparr>,
      \<lparr>geometryId = 2, bbox = BBox_of_corners (P3 2 0 0) (P3 3 1 1), straddling = False\<rparr>]"
  by (simp add: three_boxes_def box_geom_def initial_infos_def upt_rec)

lemma three_boxes_not_degenerate:
  "\<not> feq (vidx (m_max (centroid_bbox_of_range (initial_infos three_boxes)))
             (BBoxMaximumExtent (centroid_bbox_of_range (initial_infos three_boxes))))
           (vidx (m_min (centroid_bbox_of_range (initial_infos three_boxes)))
             (BBoxMaximumExtent (centroid_bbox_of_range (initial_infos three_boxes))))"
  by (simp add: three_boxes_infos centroid_bbox_of_range_def bbox_defs P3_def)

theorem small_ranges_split_at_midpoint_witness:
  "BuildRecursive 4 ref_stl SAH 8 three_boxes
      \<lparr>geomInfos = initial_infos three_boxes, nodeCount = 0, orderedGeoms = []\<rparr> 0 3
    = BuildRecursive 4 ref_stl EqualCounts 8 three_boxes
      \<lparr>geomInfos = initial_infos three_boxes, nodeCount = 0, orderedGeoms = []\<rparr> 0 3
   \<and> (\<exists>node st'. BuildRecursive 4 ref_stl SAH 8 three_boxes
          \<lparr>geomInfos = initial_infos three_boxes, nodeCount = 0, orderedGeoms = []\<rparr> 0 3
             = Returns (node, st') \<and> is_interior node)"
proof -
  let ?st = "\<lparr>geomInfos = initial_infos three_boxes, nodeCount = 0, orderedGeoms = []\<rparr>
               :: (unit, nat) build_state"
  have r: "range_of (geomInfos ?st) 0 3 = initial_infos three_boxes"
    by (simp add: range_of_def three_boxes_infos)
  have nd: "\<not> feq (vidx (m_max (centroid_bbox_of_range (range_of (geomInfos ?st) 0 3)))
             (BBoxMaximumExtent (centroid_bbox_of_range (range_of (geomInfos ?st) 0 3))))
           (vidx (m_min (centroid_bbox_of_range (range_of (geomInfos ?st) 0 3)))
             (BBoxMaximumExtent (centroid_bbox_of_range (range_of (geomInfos ?st) 0 3))))"
    unfolding r by (rule three_boxes_not_degenerate)
  have len: "length three_boxes = 3" by (simp add: three_boxes_def)
  have v: "\<forall>gi \<in> set (range_of (geomInfos ?st) 0 3). geometryId gi < length three_boxes"
    unfolding r len by (simp add: three_boxes_infos)
  have ok: "nth_element_ok (std_nth_element ref_stl)"
    by (simp add: ref_stl_def ref_nth_element_ok)
  have h1: "SAH = SAH \<or> SAH = SpatialSplit_SAH" by simp
  have h2: "2 \<le> (3::int) - 0" and h3: "(3::int) - 0 \<le> 4" and h4: "(0::int) \<le> 0"
    by simp_all
  have h5: "3 \<le> int (length (geomInfos ?st))" by (simp add: len)
  have f: "4 \<le> (4::nat)" by simp
  note c = small_ranges_split_at_midpoint[where sm = SAH and first = 0 and last' = 3
         and st = ?st and L = ref_stl and maxG = 8 and geoms = three_boxes and fuel = 4,
         OF h1 h2 h3 h4 h5 nd]
  from c v ok f show ?thesis
    by blast
qed

section \<open>Primitives that share one centroid\<close>

lemma vidx_no_NaN: "has_no_NaN c \<Longrightarrow> vidx c ax \<noteq> NaN"
  by (cases c; cases ax) auto

lemma vzip_fmin_same: "vzip fmin c c = c"
  by (cases c) simp

lemma vzip_fmax_same: "vzip fmax c c = c"
  by (cases c) simp

lemma vzip_fmin_PInf: "has_no_NaN c \<Longrightarrow> vzip fmin (Vec3 PInf PInf PInf) c = c"
  by (cases c) (simp add: fmin_PInf)

lemma vzip_fmax_MInf: "has_no_NaN c \<Longrightarrow> vzip fmax (Vec3 MInf MInf MInf) c = c"
  by (cases c) (simp add: fmax_MInf)

lemma centroid_fold_same:
  assumes "has_no_NaN c"
  shows "\<forall>gi \<in> set rng. m_centroid (bbox gi) = c \<Longrightarrow>
     (m_min b = c \<and> m_max b = c) \<or> (b = BBox_empty \<and> rng \<noteq> []) \<Longrightarrow>
     m_min (foldl (\<lambda>b gi. BBoxUnionPoint b (m_centroid (bbox gi))) b rng) = c
     \<and> m_max (foldl (\<lambda>b gi. BBoxUnionPoint b (m_centroid (bbox gi))) b rng) = c"
proof (induction rng arbitrary: b)
  case Nil
  then show ?case by simp
next
  case (Cons gi rng)
  have c: "m_centroid (bbox gi) = c" using Cons.prems(1) by simp
  have "m_min (BBoxUnionPoint b c) = c \<and> m_max (BBoxUnionPoint b c) = c"
    using Cons.prems(2) assms
    by (auto simp: BBoxUnionPoint_def BBox_of_corners_def BBox_empty_def
          vzip_fmin_same vzip_fmax_same vzip_fmin_PInf vzip_fmax_MInf)
  then show ?case
    using Cons.IH[of "BBoxUnionPoint b c"] Cons.prems(1) c by simp
qed

text \<open>
  C6.  For two or more primitives whose boxes all have the same centroid (no
  component of it NaN), for every split strategy (the strategy is a field of
  \<open>sbvh\<close>) and every implementation of the library algorithms, \<^verbatim>\<open>Build\<close> returns
  a tree that is a single leaf with build index 0 and the span of all primitives, and
  the reordered primitives are the input in its order.
\<close>

theorem identical_centroids_give_one_leaf:
  assumes "2 \<le> length geoms"
    and "\<forall>g \<in> set geoms. m_centroid (geom_GetBBox g) = c"
    and "has_no_NaN c"
  shows "Build (Suc fuel) L sbvh geoms =
     Returns (sbvh\<lparr>m_geoms := geoms,
                   m_root := SBVHLeaf 0 0 (length geoms) (bbox_of_range (initial_infos geoms)),
                   m_nodes := m_nodes sbvh
                      @ [SBVHLeaf 0 0 (length geoms) (bbox_of_range (initial_infos geoms))]\<rparr>)"
proof -
  let ?infos = "initial_infos geoms"
  let ?n = "int (length geoms)"
  have rng: "range_of ?infos 0 ?n = ?infos"
    using range_of_all[of ?infos] by simp
  have cs: "\<forall>gi \<in> set ?infos. m_centroid (bbox gi) = c"
    using assms(2) by (auto simp: initial_infos_def)
  have ne: "?infos \<noteq> []" using assms(1) by (auto simp: initial_infos_def)
  have mm: "m_min (centroid_bbox_of_range ?infos) = c \<and> m_max (centroid_bbox_of_range ?infos) = c"
    unfolding centroid_bbox_of_range_def
    using centroid_fold_same[OF assms(3) cs, of BBox_empty] ne by simp
  have d: "decide_range L (m_splitMethod sbvh) (m_maxGeomsInNode sbvh) geoms ?infos 0 ?n
      = Returns (LeafHere ?infos (bbox_of_range ?infos))"
    using mm vidx_no_NaN[OF assms(3)]
    by (simp add: decide_range_def rng Let_def feq_def)
  have v: "\<forall>gi \<in> set (range_of ?infos 0 ?n). geometryId gi < length geoms"
    unfolding rng by (auto simp: initial_infos_def)
  have g: "map (\<lambda>i. geoms ! i) (map geometryId (range_of ?infos 0 ?n)) = geoms"
    unfolding rng geometryId_initial_infos by (rule map_nth)
  show ?thesis
    using make_leaf_valid[of "\<lparr>geomInfos = ?infos, nodeCount = 0, orderedGeoms = []\<rparr>" 0 ?n geoms
            "bbox_of_range ?infos"] v g
    by (simp add: Build_def BuildRecursive_Suc d)
qed

theorem identical_centroids_give_one_leaf_witness:
  "2 \<le> length stacked_boxes
   \<and> list_all (\<lambda>g. m_centroid (geom_GetBBox g) = P3 1 1 1) stacked_boxes
   \<and> has_no_NaN (P3 1 1 1)
   \<and> is_leaf (m_root (case Build 1 ref_stl (new_SBVH SpatialSplit_SAH 8) stacked_boxes of
                        Returns s \<Rightarrow> s | _ \<Rightarrow> new_SBVH SpatialSplit_SAH 8))
   \<and> m_geoms (case Build 1 ref_stl (new_SBVH SAH 8) stacked_boxes of
                        Returns s \<Rightarrow> s | _ \<Rightarrow> new_SBVH SAH 8) = stacked_boxes
   \<and> m_numGeoms (m_root (case Build 1 ref_stl (new_SBVH EqualCounts 8) stacked_boxes of
                        Returns s \<Rightarrow> s | _ \<Rightarrow> new_SBVH EqualCounts 8)) = 2"
proof -
  have a: "2 \<le> length stacked_boxes" by (simp add: stacked_boxes_def)
  have b: "\<forall>g \<in> set stacked_boxes. m_centroid (geom_GetBBox g) = P3 1 1 1"
    by (simp add: stacked_boxes_def box_geom_def BBox_of_corners_def Centroid_def P3_def
          round32_eval)
  have c: "has_no_NaN (P3 1 1 1)" by (simp add: P3_def)
  have len: "length stacked_boxes = 2" by (simp add: stacked_boxes_def)
  show ?thesis
    using identical_centroids_give_one_leaf[OF a b c, where fuel = 0 and L = ref_stl
            and sbvh = "new_SBVH SpatialSplit_SAH 8"]
      identical_centroids_give_one_leaf[OF a b c, where fuel = 0 and L = ref_stl
            and sbvh = "new_SBVH SAH 8"]
      identical_centroids_give_one_leaf[OF a b c, where fuel = 0 and L = ref_stl
            and sbvh = "new_SBVH EqualCounts 8"]
      a b c len
    by (simp add: list_all_iff)
qed

section \<open>Spatial splits on a scene with one straddling triangle\<close>

lemmas sliver_defs =
  pebble_def sliver_def plate_def pebble_box_def sliver_bbox_def plate_box_def fragment_box_def
  info_def scene_box_def scene_centroid_box_def

lemmas clip_defs =
  spatial_step_def clip_triangle_def tight_bbox_def add_inner_vertex_def isx_point_def
  isx_coord_def

lemma sliver_infos_eq: "initial_infos sliver_scene = sliver_infos"
  by (simp add: sliver_scene_def sliver_infos_def sliver_defs scene_defs initial_infos_def upt_rec
        bbox_defs cong: obind_weak_cong)

lemma sliver_last_infos_eq: "initial_infos sliver_last_scene = sliver_last_infos"
  by (simp add: sliver_last_scene_def sliver_last_infos_def sliver_defs scene_defs
        initial_infos_def upt_rec bbox_defs cong: obind_weak_cong)

lemma sliver_length: "length sliver_infos = 5"
  and sliver_last_length: "length sliver_last_infos = 5"
  by (simp_all add: sliver_infos_def sliver_last_infos_def cong: obind_weak_cong)

lemma sliver_range: "range_of sliver_infos 0 5 = sliver_infos"
  and sliver_last_range: "range_of sliver_last_infos 0 5 = sliver_last_infos"
  by (simp_all add: range_of_def sliver_infos_def sliver_last_infos_def cong: obind_weak_cong)

lemma sliver_bbox_of_range: "bbox_of_range sliver_infos = scene_box"
  and sliver_last_bbox_of_range: "bbox_of_range sliver_last_infos = scene_box"
  by (simp_all add: bbox_of_range_def sliver_infos_def sliver_last_infos_def sliver_defs bbox_defs
        P3_def cong: obind_weak_cong)

lemma sliver_cbox: "centroid_bbox_of_range sliver_infos = scene_centroid_box"
  and sliver_last_cbox: "centroid_bbox_of_range sliver_last_infos = scene_centroid_box"
  by (simp_all add: centroid_bbox_of_range_def sliver_infos_def sliver_last_infos_def sliver_defs
        bbox_defs P3_def cong: obind_weak_cong)

lemma scene_dim: "BBoxMaximumExtent scene_centroid_box = X"
  by (simp add: scene_centroid_box_def bbox_defs P3_def cong: obind_weak_cong)

lemma scene_nd:
  "\<not> feq (vidx (m_max scene_centroid_box) X) (vidx (m_min scene_centroid_box) X)"
  by (simp add: scene_centroid_box_def bbox_defs P3_def cong: obind_weak_cong)

lemma scene_inv: "fdiv (Finite 1) (GetSurfaceArea scene_box) = Finite (11083787/274877906944)"
  by (simp add: scene_box_def bbox_defs P3_def cong: obind_weak_cong)

lemma scene_bucketSize:
  "fdiv (fsub (vidx (m_max scene_box) X) (vidx (m_min scene_box) X)) (float_of_int NUM_BUCKET)
     = Finite 1"
  by (simp add: scene_box_def bbox_defs P3_def NUM_BUCKET_def float_of_int_def cong: obind_weak_cong)

lemma sliver_fill: "fill_buckets scene_centroid_box X sliver_infos = Returns object_buckets"
  by (simp add: sliver_infos_def object_buckets_def sliver_defs sah_defs new_buckets_unfold
        empty_bucket_def bbox_defs P3_def cong: obind_weak_cong)

lemma sliver_last_fill:
  "fill_buckets scene_centroid_box X sliver_last_infos = Returns object_buckets"
  by (simp add: sliver_last_infos_def object_buckets_def sliver_defs sah_defs new_buckets_unfold
        empty_bucket_def bbox_defs P3_def cong: obind_weak_cong)

lemma sliver_spatial:
  "ofoldl (spatial_step sliver_scene scene_box scene_centroid_box X object_buckets (Finite 1))
      (sliver_infos, new_buckets) [0..<5] = Returns (sliver_clipped, spatial_buckets)"
  by (simp add: upt_rec upto_rec1 clip_defs sliver_infos_def sliver_scene_def sliver_clipped_def
        object_buckets_def spatial_buckets_def sliver_defs scene_defs sah_defs new_buckets_unfold
        empty_bucket_def bbox_defs Let_def cong: obind_weak_cong)

lemma sliver_last_spatial:
  "ofoldl (spatial_step sliver_last_scene scene_box scene_centroid_box X object_buckets (Finite 1))
      (sliver_last_infos, new_buckets) [0..<5] = Returns (sliver_last_clipped, spatial_buckets)"
  by (simp add: upt_rec upto_rec1 clip_defs sliver_last_infos_def sliver_last_scene_def
        sliver_last_clipped_def object_buckets_def spatial_buckets_def sliver_defs scene_defs
        sah_defs new_buckets_unfold empty_bucket_def bbox_defs Let_def cong: obind_weak_cong)

lemma scene_find_split:
  "find_split (Finite (11083787/274877906944)) object_buckets spatial_buckets =
     \<lparr>minSplitCost = Finite (16635151/8388608), minSplitCostBucket = Finite 2,
      objectSplitCost = Finite (1405853/524288), spatialSplitCost = Finite (16635151/8388608),
      isSpatialSplit = True\<rparr>"
  by (simp add: spatial_defs object_buckets_def spatial_buckets_def sliver_defs sah_defs
        empty_bucket_def bbox_defs P3_def upt_rec Let_def cong: obind_weak_cong)

lemma scene_restriction: "restriction_met (Finite (11083787/274877906944)) object_buckets 2"
  by (simp add: restriction_met_def SAChildrenOverlap_def object_buckets_def sliver_defs sah_defs
        empty_bucket_def bbox_defs P3_def cong: obind_weak_cong)

lemma scene_spatial_cost:
  "spatial_cost (Finite (11083787/274877906944)) object_buckets spatial_buckets 2 = Finite (16635151/8388608)"
  by (simp add: spatial_cost_def object_buckets_def spatial_buckets_def sliver_defs sah_defs
        empty_bucket_def bbox_defs P3_def cong: obind_weak_cong)

lemma scene_spatial_cost_spec:
  "spatial_cost_spec (Finite (11083787/274877906944)) spatial_buckets 2 = Finite (542469/524288)"
  by (simp add: spatial_cost_spec_def spatial_buckets_def sliver_defs sah_defs
        empty_bucket_def bbox_defs P3_def cong: obind_weak_cong)

lemma scene_counts:
  "count0_of object_buckets 2 = 2" "count1_of object_buckets 2 = 3"
  "count0_of spatial_buckets 2 = 1" "count1_of spatial_buckets 2 = 3"
  by (simp_all add: count0_of_def count1_of_def object_buckets_def spatial_buckets_def
        empty_bucket_def cong: obind_weak_cong)

lemma search_step_spatialSplitCost:
  "spatialSplitCost (search_step invSA buckets sp s i) =
     (if restriction_met invSA buckets i then spatial_cost invSA buckets sp i
      else spatialSplitCost s)"
  by (simp add: search_step_def select_candidate_def Let_def cong: obind_weak_cong)

lemma leaf_cost_5: "fmul (float_of_int 5) COST_INTERSECTION = Finite 5"
  by (simp add: COST_INTERSECTION_def float_of_int_def round32_eval cong: obind_weak_cong)

lemma sliver_last_remove:
  "remove_straddling ref_stl 0 5 sliver_last_clipped = sliver_last_clipped"
  by (simp add: remove_straddling_def ref_stl_def ref_remove_if_def range_of_def set_range_def
        sliver_last_clipped_def info_def cong: obind_weak_cong)

lemma sliver_last_partition:
  "partition_by_bucket ref_stl scene_centroid_box X (\<lambda>w. fle (float_of_int w) (Finite 2)) 0 5
      sliver_last_clipped = Returns (2, sliver_last_after_split)"
  by (simp add: sliver_last_clipped_def sliver_last_after_split_def sliver_defs sah_defs
        ref_stl_def ref_partition_def range_of_def set_range_def bbox_defs P3_def cong: obind_weak_cong)

lemma sliver_remove: "remove_straddling ref_stl 0 5 sliver_clipped = sliver_after_split"
  by (simp add: remove_straddling_def ref_stl_def ref_remove_if_def range_of_def set_range_def
        sliver_clipped_def sliver_after_split_def info_def cong: obind_weak_cong)

lemma sliver_partition:
  "partition_by_bucket ref_stl scene_centroid_box X (\<lambda>w. fle (float_of_int w) (Finite 2)) 0 5
      sliver_after_split = Returns (1, sliver_after_split)"
  by (simp add: sliver_after_split_def sliver_defs sah_defs ref_stl_def ref_partition_def
        range_of_def set_range_def bbox_defs P3_def cong: obind_weak_cong)

lemma sliver_last_Spatial_split:
  "Spatial_split ref_stl 8 sliver_last_scene scene_box scene_centroid_box X (Finite (11083787/274877906944))
      0 5 sliver_last_infos = Returns (SplitAt 2, sliver_last_after_split)"
  by (simp add: Spatial_split_def sliver_last_range sliver_last_fill scene_bucketSize
        sliver_last_spatial scene_find_split sliver_last_remove sliver_last_partition
        leaf_cost_5 cong: obind_weak_cong)

lemma sliver_Spatial_split:
  "Spatial_split ref_stl 8 sliver_scene scene_box scene_centroid_box X (Finite (11083787/274877906944))
      0 5 sliver_infos = Returns (SplitAt 1, sliver_after_split)"
  by (simp add: Spatial_split_def sliver_range sliver_fill scene_bucketSize
        sliver_spatial scene_find_split sliver_remove sliver_partition leaf_cost_5 cong: obind_weak_cong)

lemma sliver_decide:
  "decide_range ref_stl SpatialSplit_SAH 8 sliver_scene sliver_infos 0 5
     = Returns (SplitHere X 1 sliver_after_split)"
  by (simp add: decide_range_def sliver_length sliver_range sliver_bbox_of_range sliver_cbox
        scene_dim scene_nd choose_split_def scene_inv sliver_Spatial_split cong: obind_weak_cong)

lemma sliver_last_decide:
  "decide_range ref_stl SpatialSplit_SAH 8 sliver_last_scene sliver_last_infos 0 5
     = Returns (SplitHere X 2 sliver_last_after_split)"
  by (simp add: decide_range_def sliver_last_length sliver_last_range sliver_last_bbox_of_range
        sliver_last_cbox scene_dim scene_nd choose_split_def scene_inv sliver_last_Spatial_split cong: obind_weak_cong)

lemma sliver_near:
  "BuildRecursive (Suc 0) ref_stl SpatialSplit_SAH 8 sliver_scene
      \<lparr>geomInfos = sliver_after_split, nodeCount = 0, orderedGeoms = []\<rparr> 0 1
     = Returns (SBVHLeaf 0 0 1 pebble_box,
         \<lparr>geomInfos = sliver_after_split, nodeCount = Suc 0, orderedGeoms = [pebble 0]\<rparr>)"
  by (simp add: BuildRecursive.simps(2) sliver_after_split_def info_def range_of_def
        bbox_of_range_def make_leaf_def pebble_box_def bbox_defs P3_def cong: obind_weak_cong)
     (simp add: sliver_scene_def cong: obind_weak_cong)

lemma sliver_far:
  "BuildRecursive (Suc 0) ref_stl SpatialSplit_SAH 8 sliver_scene
      \<lparr>geomInfos = sliver_after_split, nodeCount = Suc 0, orderedGeoms = [pebble 0]\<rparr> 1 5
     = Returns (SBVHLeaf (Suc 0) (Suc 0) 4 plate_box,
         \<lparr>geomInfos = sliver_after_split, nodeCount = 2,
          orderedGeoms = [pebble 0, plate 2, plate 3, plate 4, plate 4]\<rparr>)"
  by (simp add: BuildRecursive.simps(2) sliver_after_split_def info_def range_of_def
        bbox_of_range_def centroid_bbox_of_range_def make_leaf_def plate_box_def bbox_defs P3_def cong: obind_weak_cong)
     (simp add: sliver_scene_def cong: obind_weak_cong)

lemma sliver_build_recursive:
  "BuildRecursive 2 ref_stl SpatialSplit_SAH 8 sliver_scene
      \<lparr>geomInfos = sliver_infos, nodeCount = 0, orderedGeoms = []\<rparr> 0 5
     = Returns (sliver_root,
         \<lparr>geomInfos = sliver_after_split, nodeCount = 3, orderedGeoms = sliver_geoms\<rparr>)"
  by (simp add: numeral_2_eq_2 BuildRecursive_Suc[of "Suc 0"] sliver_decide sliver_near sliver_far
        sliver_root_def sliver_geoms_def cong: obind_weak_cong)

lemma sliver_build:
  "Build 2 ref_stl (new_SBVH SpatialSplit_SAH 8) sliver_scene =
     Returns ((new_SBVH SpatialSplit_SAH 8)
       \<lparr>m_geoms := sliver_geoms, m_root := sliver_root,
        m_nodes := FlattenRecursive sliver_root\<rparr>)"
proof -
  have len: "length sliver_scene = 5" by (simp add: sliver_scene_def cong: obind_weak_cong)
  show ?thesis
    using sliver_build_recursive
    by (simp add: Build_def sliver_infos_eq len new_SBVH_def cong: obind_weak_cong)
qed

lemma sliver_traversal:
  "GetIntersection hitsBox noIsx
      ((new_SBVH SpatialSplit_SAH 8)
         \<lparr>m_geoms := sliver_geoms, m_root := sliver_root,
          m_nodes := FlattenRecursive sliver_root\<rparr>) () = Returns noIsx"
  by (simp add: GetIntersection_def sliver_root_def new_SBVHNode_def sliver_geoms_def
        leaf_nearest_def leaf_geoms_def test_geom_def pebble_def plate_def box_geom_def hit_at_def
        new_SBVH_def cong: obind_weak_cong)

lemma sliver_brute_force: "brute_force_nearest noIsx sliver_scene () = hit_at 1 1"
  by (simp add: brute_force_nearest_def closer_def sliver_scene_def pebble_def plate_def sliver_def
        box_geom_def triangle_geom_def hit_at_def cong: obind_weak_cong)

text \<open>
  C4.  The cost of the spatial candidate is not computed from the spatial buckets
  alone.  Before the spatial buckets are accumulated the source resets the two boxes
  (\<^verbatim>\<open>bbox0 = BBox(); bbox1 = BBox();\<close>) but not \<^verbatim>\<open>count0\<close> and \<^verbatim>\<open>count1\<close>, which
  still hold the counts of the object buckets; the counts that enter the cost are
  the sums of both.  For \<open>sliver_last_scene\<close> the restriction is met at boundary 2.
  The object buckets hold 2 and 3 primitives on the two sides, the spatial buckets 1
  and 3, so the source multiplies the areas 960 and 7200 of the spatial boxes by 3
  and 6: the sum 46080, times the rounded inverse of the total area 24800, plus
  1/8, is 16635151/8388608 in single precision (about 1.983), for every state of
  the search before that boundary; with the counts 1 and 3 of the spatial buckets
  the formula gives the sum 22560 and the cost 542469/524288 (about 1.035).  The
  value 16635151/8388608 is also the minimum the search returns.
\<close>

theorem spatial_cost_keeps_object_counts:
  "fill_buckets (centroid_bbox_of_range (initial_infos sliver_last_scene))
      (BBoxMaximumExtent (centroid_bbox_of_range (initial_infos sliver_last_scene)))
      (initial_infos sliver_last_scene) = Returns object_buckets
   \<and> ofoldl (spatial_step sliver_last_scene (bbox_of_range (initial_infos sliver_last_scene))
         (centroid_bbox_of_range (initial_infos sliver_last_scene))
         (BBoxMaximumExtent (centroid_bbox_of_range (initial_infos sliver_last_scene)))
         object_buckets (Finite 1))
       (initial_infos sliver_last_scene, new_buckets) [0..<5]
       = Returns (sliver_last_clipped, spatial_buckets)
   \<and> fdiv (Finite 1) (GetSurfaceArea (bbox_of_range (initial_infos sliver_last_scene)))
       = Finite (11083787/274877906944)
   \<and> restriction_met (Finite (11083787/274877906944)) object_buckets 2
   \<and> count0_of object_buckets 2 = 2 \<and> count1_of object_buckets 2 = 3
   \<and> count0_of spatial_buckets 2 = 1 \<and> count1_of spatial_buckets 2 = 3
   \<and> spatialSplitCost (search_step (Finite (11083787/274877906944)) object_buckets spatial_buckets s 2)
       = Finite (16635151/8388608)
   \<and> spatial_cost_spec (Finite (11083787/274877906944)) spatial_buckets 2 = Finite (542469/524288)
   \<and> minSplitCost (find_split (Finite (11083787/274877906944)) object_buckets spatial_buckets)
       = Finite (16635151/8388608)"
  unfolding sliver_last_infos_eq sliver_last_cbox scene_dim sliver_last_bbox_of_range scene_inv
  using sliver_last_fill sliver_last_spatial scene_restriction
  by (simp add: scene_counts search_step_spatialSplitCost scene_spatial_cost
        scene_spatial_cost_spec scene_find_split cong: obind_weak_cong)

text \<open>
  C2.  The pass that should remove the straddling entries leaves the range as long
  as it was: the result of \<^verbatim>\<open>std::remove_if\<close> is discarded and \<^verbatim>\<open>last\<close> is not
  moved.  For \<open>sliver_last_scene\<close> the clipping loop flags the triangle, the last
  entry of the range, and appends its fragment behind the range; the spatial split
  wins; \<^verbatim>\<open>std::remove_if\<close> keeps the four entries before the triangle where they
  are and writes nothing behind them.  After the pass the range \<open>[0, 5)\<close> still ends
  with the flagged entry, the fragment is at index 5 and so outside the range, and
  the partition moves the flagged entry to the near side: the decision for the
  range is a split at 2 whose near side is the small box and the flagged triangle.
\<close>

theorem remove_pass_leaves_straddling_entry_in_range:
  "ofoldl (spatial_step sliver_last_scene (bbox_of_range (initial_infos sliver_last_scene))
         (centroid_bbox_of_range (initial_infos sliver_last_scene))
         (BBoxMaximumExtent (centroid_bbox_of_range (initial_infos sliver_last_scene)))
         object_buckets (Finite 1))
       (initial_infos sliver_last_scene, new_buckets) [0..<5]
       = Returns (sliver_last_clipped, spatial_buckets)
   \<and> isSpatialSplit (find_split (Finite (11083787/274877906944)) object_buckets spatial_buckets)
   \<and> range_of (remove_straddling ref_stl 0 5 sliver_last_clipped) 0 5 =
       [info 0 pebble_box False, info 1 plate_box False, info 2 plate_box False,
        info 3 plate_box False, info 4 sliver_bbox True]
   \<and> straddling (range_of (remove_straddling ref_stl 0 5 sliver_last_clipped) 0 5 ! 4)
   \<and> drop 5 (remove_straddling ref_stl 0 5 sliver_last_clipped) = [info 4 fragment_box False]
   \<and> decide_range ref_stl SpatialSplit_SAH 8 sliver_last_scene (initial_infos sliver_last_scene)
        0 5 = Returns (SplitHere X 2 sliver_last_after_split)
   \<and> range_of sliver_last_after_split 0 2 = [info 0 pebble_box False, info 4 sliver_bbox True]"
  unfolding sliver_last_infos_eq sliver_last_cbox scene_dim sliver_last_bbox_of_range
    sliver_last_remove
  using sliver_last_spatial sliver_last_decide
  by (simp add: scene_find_split cong: obind_weak_cong)
     (simp add: sliver_last_clipped_def sliver_last_after_split_def range_of_def info_def cong: obind_weak_cong)

text \<open>
  C1.  A tree built with spatial splits can miss the nearest hit.  In
  \<open>sliver_scene\<close> the triangle is the second primitive and the only one the ray
  hits, at distance 1.  The spatial split wins for the root range, and the pass of
  \<^verbatim>\<open>std::remove_if\<close> moves the three entries behind the flagged triangle one place
  forward, over it; the range keeps its length, so the last entry is there twice
  and the entry of the triangle is gone.  \<^verbatim>\<open>Build\<close> returns, for every bound on the
  depth of at least 2, a tree of two leaves over the small box and the plates, the
  last plate twice; the triangle is not among the reordered primitives.
  \<^verbatim>\<open>GetIntersection\<close> reports no hit, whatever the ray-box test answers, while
  testing all primitives of the input finds the hit at distance 1.
\<close>

theorem spatial_build_misses_nearest_hit:
  "Build (2 + fuel) ref_stl (new_SBVH SpatialSplit_SAH 8) sliver_scene =
     Returns ((new_SBVH SpatialSplit_SAH 8)
       \<lparr>m_geoms := [pebble 0, plate 2, plate 3, plate 4, plate 4], m_root := sliver_root,
        m_nodes := FlattenRecursive sliver_root\<rparr>)
   \<and> GetIntersection hitsBox noIsx
        ((new_SBVH SpatialSplit_SAH 8)
           \<lparr>m_geoms := [pebble 0, plate 2, plate 3, plate 4, plate 4], m_root := sliver_root,
            m_nodes := FlattenRecursive sliver_root\<rparr>) () = Returns noIsx
   \<and> brute_force_nearest noIsx sliver_scene () = hit_at 1 1
   \<and> geom_GetIntersection (sliver_scene ! 1) () = hit_at 1 1"
proof -
  have b: "Build (2 + fuel) ref_stl (new_SBVH SpatialSplit_SAH 8) sliver_scene =
     Returns ((new_SBVH SpatialSplit_SAH 8)
       \<lparr>m_geoms := sliver_geoms, m_root := sliver_root,
        m_nodes := FlattenRecursive sliver_root\<rparr>)"
    by (rule Build_mono[OF sliver_build]) simp
  have h: "geom_GetIntersection (sliver_scene ! 1) () = hit_at 1 1"
    by (simp add: sliver_scene_def sliver_def triangle_geom_def cong: obind_weak_cong)
  from b sliver_traversal[of hitsBox noIsx] sliver_brute_force[of noIsx] h show ?thesis
    unfolding sliver_geoms_def by simp
qed

section \<open>Tie-breaking between the object split and the spatial split\<close>

lemmas tie_defs =
  tie_pebble_def tie_sliver_def tie_plate_def tie_pebble_box_def tie_sliver_bbox_def
  tie_plate_box_def tie_fragment_box_def info_def tie_box_def tie_centroid_box_def

lemma tie_infos_eq: "initial_infos tie_scene = tie_infos"
  by (simp add: tie_scene_def tie_infos_def tie_defs scene_defs initial_infos_def upt_rec
        bbox_defs cong: obind_weak_cong)

lemma tie_bbox_of_range: "bbox_of_range tie_infos = tie_box"
  by (simp add: bbox_of_range_def tie_infos_def tie_defs bbox_defs P3_def cong: obind_weak_cong)

lemma tie_cbox: "centroid_bbox_of_range tie_infos = tie_centroid_box"
  by (simp add: centroid_bbox_of_range_def tie_infos_def tie_defs bbox_defs P3_def cong: obind_weak_cong)

lemma tie_dim: "BBoxMaximumExtent tie_centroid_box = X"
  by (simp add: tie_centroid_box_def bbox_defs P3_def cong: obind_weak_cong)

lemma tie_inv: "fdiv (Finite 1) (GetSurfaceArea tie_box) = Finite (6697805/137438953472)"
  by (simp add: tie_box_def bbox_defs P3_def cong: obind_weak_cong)

lemma tie_bucketSize:
  "fdiv (fsub (vidx (m_max tie_box) X) (vidx (m_min tie_box) X)) (float_of_int NUM_BUCKET)
     = Finite 1"
  by (simp add: tie_box_def bbox_defs P3_def NUM_BUCKET_def float_of_int_def cong: obind_weak_cong)

lemma tie_fill: "fill_buckets tie_centroid_box X tie_infos = Returns tie_object_buckets"
  by (simp add: tie_infos_def tie_object_buckets_def tie_defs sah_defs new_buckets_unfold
        empty_bucket_def bbox_defs P3_def cong: obind_weak_cong)

lemma tie_spatial:
  "ofoldl (spatial_step tie_scene tie_box tie_centroid_box X tie_object_buckets (Finite 1))
      (tie_infos, new_buckets) [0..<5] = Returns (tie_clipped, tie_spatial_buckets)"
  by (simp add: upt_rec upto_rec1 clip_defs tie_infos_def tie_scene_def tie_clipped_def
        tie_object_buckets_def tie_spatial_buckets_def tie_defs scene_defs sah_defs
        new_buckets_unfold empty_bucket_def bbox_defs Let_def cong: obind_weak_cong)

lemma tie_object_cost: "object_cost (Finite (6697805/137438953472)) tie_object_buckets 2 = Finite (13946061/4194304)"
  by (simp add: tie_object_buckets_def tie_defs sah_defs empty_bucket_def bbox_defs P3_def cong: obind_weak_cong)

lemma tie_restriction: "restriction_met (Finite (6697805/137438953472)) tie_object_buckets 2"
  by (simp add: restriction_met_def SAChildrenOverlap_def tie_object_buckets_def tie_defs sah_defs
        empty_bucket_def bbox_defs P3_def cong: obind_weak_cong)

lemma tie_spatial_cost:
  "spatial_cost (Finite (6697805/137438953472)) tie_object_buckets tie_spatial_buckets 2 = Finite (13946061/4194304)"
  by (simp add: spatial_cost_def tie_object_buckets_def tie_spatial_buckets_def tie_defs sah_defs
        empty_bucket_def bbox_defs P3_def cong: obind_weak_cong)

lemma tie_before:
  "foldl (search_step (Finite (6697805/137438953472)) tie_object_buckets tie_spatial_buckets)
      split_search_init [0..<2] = tie_search_before"
  by (simp add: spatial_defs tie_search_before_def tie_object_buckets_def tie_spatial_buckets_def
        tie_defs sah_defs empty_bucket_def bbox_defs P3_def upt_rec Let_def cong: obind_weak_cong)

lemma tie_find_split:
  "find_split (Finite (6697805/137438953472)) tie_object_buckets tie_spatial_buckets =
     \<lparr>minSplitCost = Finite (13946061/4194304), minSplitCostBucket = Finite 2,
      objectSplitCost = Finite (13946061/4194304), spatialSplitCost = Finite (13946061/4194304),
      isSpatialSplit = True\<rparr>"
  by (simp add: spatial_defs tie_object_buckets_def tie_spatial_buckets_def tie_defs sah_defs
        empty_bucket_def bbox_defs P3_def upt_rec Let_def cong: obind_weak_cong)

lemma tie_step:
  "search_step (Finite (6697805/137438953472)) tie_object_buckets tie_spatial_buckets tie_search_before 2 =
     \<lparr>minSplitCost = Finite (13946061/4194304), minSplitCostBucket = Finite 2,
      objectSplitCost = Finite (13946061/4194304), spatialSplitCost = Finite (13946061/4194304),
      isSpatialSplit = True\<rparr>"
  by (simp add: search_step_def tie_restriction tie_object_cost tie_spatial_cost
        select_candidate_def tie_search_before_def float_of_int_def round32_eval cong: obind_weak_cong)

text \<open>
  C3.  The claim that a tie between the two costs selects the object split does not
  hold.  The test in the source is \<^verbatim>\<open>objectSplitCost < spatialSplitCost\<close>: the
  object split is recorded only when its cost is strictly lower, and every other
  case, a tie included, goes to the spatial branch.  Counterexample: the scene
  \<open>tie_scene\<close> in SpatialSplit_SAH mode.  At boundary 2 the boxes of the two sides
  of the object split overlap, the restriction is met, and both costs are computed
  by the same operations from the same sum 65664 and the same rounded inverse of
  the total area 20520: the single-precision value 13946061/4194304 (about 3.325),
  below the minimum 4251811/1048576 that the boundaries 0 and 1 have left; the step
  at boundary 2 records the spatial split, and the spatial split is what the whole
  search returns.
\<close>

theorem tie_selects_spatial_counterexample:
  "fill_buckets (centroid_bbox_of_range (initial_infos tie_scene))
      (BBoxMaximumExtent (centroid_bbox_of_range (initial_infos tie_scene)))
      (initial_infos tie_scene) = Returns tie_object_buckets
   \<and> ofoldl (spatial_step tie_scene (bbox_of_range (initial_infos tie_scene))
         (centroid_bbox_of_range (initial_infos tie_scene))
         (BBoxMaximumExtent (centroid_bbox_of_range (initial_infos tie_scene)))
         tie_object_buckets (Finite 1))
       (initial_infos tie_scene, new_buckets) [0..<5] = Returns (tie_clipped, tie_spatial_buckets)
   \<and> fdiv (Finite 1) (GetSurfaceArea (bbox_of_range (initial_infos tie_scene)))
       = Finite (6697805/137438953472)
   \<and> foldl (search_step (Finite (6697805/137438953472)) tie_object_buckets tie_spatial_buckets)
        split_search_init [0..<2] = tie_search_before
   \<and> restriction_met (Finite (6697805/137438953472)) tie_object_buckets 2
   \<and> feq (object_cost (Finite (6697805/137438953472)) tie_object_buckets 2)
          (spatial_cost (Finite (6697805/137438953472)) tie_object_buckets tie_spatial_buckets 2)
   \<and> isSpatialSplit
        (search_step (Finite (6697805/137438953472)) tie_object_buckets tie_spatial_buckets
           tie_search_before 2)
   \<and> isSpatialSplit (find_split (Finite (6697805/137438953472)) tie_object_buckets tie_spatial_buckets)"
  unfolding tie_infos_eq tie_cbox tie_dim tie_bbox_of_range tie_inv
  using tie_fill tie_spatial tie_restriction tie_before
  by (simp add: tie_object_cost tie_spatial_cost tie_find_split tie_step cong: obind_weak_cong)

text \<open>
  C3, amended.  At every candidate boundary \<open>i\<close> of the search, with \<open>obj\<close> the
  object-split cost at \<open>i\<close> and \<open>spat\<close> the spatial cost in effect: when \<open>obj\<close> is
  not strictly lower than \<open>spat\<close> (so also when the two are equal) and \<open>spat\<close> is
  below the tracked minimum, the spatial split is recorded as the new minimum; the
  object split is recorded exactly when \<open>obj\<close> is strictly lower than both \<open>spat\<close>
  and the tracked minimum; otherwise the tracked minimum is kept.
\<close>

theorem search_step_ties_favor_spatial:
  fixes invSA buckets sp s i
  defines "obj \<equiv> object_cost invSA buckets i"
    and "spat \<equiv> spatial_cost_in_effect invSA buckets sp s i"
    and "s' \<equiv> search_step invSA buckets sp s i"
  shows "(\<not> fless obj spat \<and> fless spat (minSplitCost s) \<longrightarrow>
            isSpatialSplit s' \<and> minSplitCost s' = spat
            \<and> minSplitCostBucket s' = float_of_int (int i))
       \<and> (feq obj spat \<longrightarrow> \<not> fless obj spat)
       \<and> (fless obj spat \<and> fless obj (minSplitCost s) \<longrightarrow>
            \<not> isSpatialSplit s' \<and> minSplitCost s' = obj
            \<and> minSplitCostBucket s' = float_of_int (int i))
       \<and> (\<not> (fless obj spat \<and> fless obj (minSplitCost s))
            \<and> \<not> (\<not> fless obj spat \<and> fless spat (minSplitCost s)) \<longrightarrow>
            isSpatialSplit s' = isSpatialSplit s \<and> minSplitCost s' = minSplitCost s
            \<and> minSplitCostBucket s' = minSplitCostBucket s)"
  unfolding obj_def spat_def s'_def
  by (auto simp: search_step_def select_candidate_def spatial_cost_in_effect_def Let_def
        feq_imp_not_fless)

theorem search_step_ties_favor_spatial_witness:
  "\<not> fless (object_cost (Finite (6697805/137438953472)) tie_object_buckets 2)
          (spatial_cost_in_effect (Finite (6697805/137438953472)) tie_object_buckets tie_spatial_buckets
             tie_search_before 2)
   \<and> fless (spatial_cost_in_effect (Finite (6697805/137438953472)) tie_object_buckets tie_spatial_buckets
             tie_search_before 2)
          (minSplitCost tie_search_before)
   \<and> isSpatialSplit
        (search_step (Finite (6697805/137438953472)) tie_object_buckets tie_spatial_buckets
           tie_search_before 2)
   \<and> minSplitCost
        (search_step (Finite (6697805/137438953472)) tie_object_buckets tie_spatial_buckets
           tie_search_before 2) = Finite (13946061/4194304)"
proof -
  have e: "spatial_cost_in_effect (Finite (6697805/137438953472)) tie_object_buckets tie_spatial_buckets
      tie_search_before 2 = Finite (13946061/4194304)"
    by (simp add: spatial_cost_in_effect_def tie_restriction tie_spatial_cost cong: obind_weak_cong)
  have h: "\<not> fless (object_cost (Finite (6697805/137438953472)) tie_object_buckets 2)
          (spatial_cost_in_effect (Finite (6697805/137438953472)) tie_object_buckets tie_spatial_buckets
             tie_search_before 2)
     \<and> fless (spatial_cost_in_effect (Finite (6697805/137438953472)) tie_object_buckets tie_spatial_buckets
             tie_search_before 2)
          (minSplitCost tie_search_before)"
    unfolding e by (simp add: tie_object_cost tie_search_before_def cong: obind_weak_cong)
  from search_step_ties_favor_spatial[of "Finite (6697805/137438953472)" tie_object_buckets 2
         tie_spatial_buckets tie_search_before, THEN conjunct1] h
  have "isSpatialSplit
          (search_step (Finite (6697805/137438953472)) tie_object_buckets tie_spatial_buckets
             tie_search_before 2)
    \<and> minSplitCost
          (search_step (Finite (6697805/137438953472)) tie_object_buckets tie_spatial_buckets
             tie_search_before 2)
       = spatial_cost_in_effect (Finite (6697805/137438953472)) tie_object_buckets tie_spatial_buckets
           tie_search_before 2"
    by blast
  with h show ?thesis unfolding e by blast
qed

section \<open>SAH: leaf or split\<close>
























text \<open>
  The scene \<open>eight_scene\<close>: the quotient \<open>1/656\<close> is rounded down, the product with
  5166 is rounded to a value below \<open>7.875\<close>, and every candidate costs
  \<open>16777215/2097152\<close>, the binary32 value just below 8.
\<close>

lemmas eight_defs = info_def short_box_def eight_box_def eight_centroid_box_def

lemma eight_infos_eq: "initial_infos eight_scene = eight_infos"
  by (simp add: eight_scene_def wide_triangle_def triangle_geom_def initial_infos_def upt_rec
        eight_infos_def eight_defs bbox_defs P3_def cong: obind_weak_cong)
















lemma sliver_object_costs:
  "object_cost (Finite (11083787/274877906944)) object_buckets 0 = Finite (2128871/524288)"
  "object_cost (Finite (11083787/274877906944)) object_buckets 1 = Finite (2128871/524288)"
  "object_cost (Finite (11083787/274877906944)) object_buckets 2 = Finite (1405853/524288)"
  by (simp_all add: object_buckets_def sliver_defs sah_defs empty_bucket_def bbox_defs P3_def cong: obind_weak_cong)










end
